theory Spec2Isabelle
  imports Main "HOL-Library.Sublist"
begin

section \<open>The Core of the secret store: seal state machine, request pipeline, HA loop\<close>

text \<open>
  A shallow embedding of \<^verbatim>\<open>vault/core.go\<close>. The mutable fields of the Go struct
  \<^verbatim>\<open>Core\<close> are a record that every operation takes and returns. The collaborators
  of the Core (barrier, physical store, router, token store, policy store, expiration
  manager, audit broker, the Shamir primitive, and the methods of \<^verbatim>\<open>Core\<close> that live
  in other files) are not part of \<^verbatim>\<open>core.go\<close>: their answers are fields of a record
  \<open>env\<close>, and every call the Core makes to one of them is written, in program order,
  to a list of events that each operation returns beside its result.
  Locks (\<^verbatim>\<open>stateLock\<close>) and the metrics timers (\<^verbatim>\<open>metrics.MeasureSince\<close>) are not
  modelled: each operation is taken as one atomic step.
\<close>

subsection \<open>Constants\<close>

definition coreSealConfigPath :: string where
  "coreSealConfigPath = ''core/seal-config''"

definition coreLockPath :: string where
  "coreLockPath = ''core/lock''"

definition coreLeaderPrefix :: string where
  "coreLeaderPrefix = ''core/leader/''"

subsection \<open>Errors\<close>

text \<open>
  A Go byte slice and a Go string are both sequences of bytes; an Isabelle \<open>char\<close> is a
  byte, so both are \<open>char list\<close>, and the conversions \<^verbatim>\<open>string(b)\<close> and
  \<^verbatim>\<open>[]byte(s)\<close> are the identity.
\<close>

type_synonym bytes = string

text \<open>
  The error values of \<^verbatim>\<open>core.go\<close>, the two errors of package \<^verbatim>\<open>logical\<close> that
  it names, and \<open>Errorf\<close> for a value made by \<^verbatim>\<open>fmt.Errorf\<close> or returned by a
  collaborator, carrying its text. In Go the sentinel errors are compared by identity:
  \<open>Errorf ''internal error''\<close> is not \<open>ErrInternalError\<close>.
\<close>

datatype error =
    ErrSealed
  | ErrStandby
  | ErrAlreadyInit
  | ErrNotInit
  | ErrInternalError
  | ErrHANotEnabled
  | ErrInvalidKey string
  | ErrPermissionDenied
  | ErrInvalidRequest
  | Errorf string

subsection \<open>Data\<close>

record SealConfig =
  SecretShares :: int
  SecretThreshold :: int

record physical_Entry =
  pe_Key :: string
  pe_Value :: bytes

record Entry =
  Key :: string
  Value :: bytes

datatype Operation =
    ReadOperation | WriteOperation | DeleteOperation | ListOperation
  | RevokeOperation | RenewOperation | RollbackOperation | HelpOperation

text \<open>The fields of the types of package \<^verbatim>\<open>logical\<close> that \<^verbatim>\<open>core.go\<close> reads or writes.\<close>

record Request =
  req_Operation :: Operation
  req_Path :: string
  req_ClientToken :: string
  req_DisplayName :: string

record Secret =
  secret_Lease :: int
  secret_LeaseID :: string

record Auth =
  auth_ClientToken :: string
  auth_Policies :: "string list"
  auth_Metadata :: "string \<rightharpoonup> string"
  auth_DisplayName :: string
  auth_Lease :: int

record Response =
  resp_Secret :: "Secret option"
  resp_Auth :: "Auth option"
  resp_Data :: "string \<rightharpoonup> string"

record TokenEntry =
  te_ID :: string
  te_Path :: string
  te_Policies :: "string list"
  te_Meta :: "string \<rightharpoonup> string"
  te_DisplayName :: string

record ACL =
  acl_RootPrivilege :: "string \<Rightarrow> bool"
  acl_AllowOperation :: "Operation \<Rightarrow> string \<Rightarrow> bool"

text \<open>A lock of the HA backend: \<open>lock_Value\<close> is the answer of \<^verbatim>\<open>lock.Value()\<close>.\<close>

record Lock =
  lock_Value :: "error + (bool \<times> string)"

text \<open>
  The set-up and tear-down methods of \<^verbatim>\<open>Core\<close> that \<^verbatim>\<open>postUnseal\<close> and
  \<^verbatim>\<open>preSeal\<close> call; they are defined in other files of the package.
\<close>

datatype step =
    LoadMounts | SetupMounts | StartRollback | SetupPolicyStore
  | LoadCredentials | SetupCredentials | SetupExpiration | LoadAudits | SetupAudits
  | TeardownAudits | StopExpiration | TeardownCredentials | TeardownPolicyStore
  | StopRollback | UnloadMounts

datatype chan = ChOpen | ChClosed

text \<open>
  The Core's own state. \<open>ha\<close> is \<^verbatim>\<open>c.ha != nil\<close>; \<open>physical_is_cache\<close> says
  whether the type assertion of \<^verbatim>\<open>c.physical\<close> to a pointer to \<^verbatim>\<open>physical.Cache\<close>
  succeeds; \<open>metricsCh\<close> is \<^verbatim>\<open>c.metricsCh != nil\<close>; a channel field is \<open>None\<close>
  for \<^verbatim>\<open>nil\<close>.
\<close>

record Core =
  ha :: bool
  advertiseAddr :: string
  physical_is_cache :: bool
  sealed :: bool
  standby :: bool
  standbyDoneCh :: "chan option"
  standbyStopCh :: "chan option"
  unlockParts :: "bytes list"
  metricsCh :: bool

subsection \<open>The collaborators\<close>

text \<open>
  What \<^verbatim>\<open>core.go\<close> uses and does not define: constants of other files
  (\<open>defaultLeaseDuration\<close>, \<open>maxLeaseDuration\<close>, \<open>ShareOverhead\<close>,
  \<open>credentialRoutePrefix\<close>, the text of \<^verbatim>\<open>logical.ErrPermissionDenied\<close> and of
  \<^verbatim>\<open>logical.ErrInvalidRequest\<close>) and the answers of the collaborators. An error
  answer is \<open>Some e\<close> or \<open>Inl e\<close>.
\<close>

record env =
  defaultLeaseDuration :: int
  maxLeaseDuration :: int
  ShareOverhead :: int
  credentialRoutePrefix :: string
  permission_denied_text :: string
  invalid_request_text :: string
  physical_Get :: "string \<Rightarrow> error + physical_Entry option"
  json_Unmarshal :: "bytes \<Rightarrow> error + SealConfig"
  barrier_KeyLength :: "int \<times> int"
  barrier_Unseal :: "bytes \<Rightarrow> error option"
  barrier_Seal :: "error option"
  barrier_Get :: "string \<Rightarrow> error + Entry option"
  barrier_Put :: "Entry \<Rightarrow> error option"
  barrier_Delete :: "string \<Rightarrow> error option"
  shamir_Combine :: "bytes list \<Rightarrow> error + bytes"
  ha_LockWith :: "string \<Rightarrow> string \<Rightarrow> error + Lock"
  lifecycle :: "step \<Rightarrow> error option"
  router_LoginPath :: "string \<Rightarrow> bool"
  router_RootPath :: "string \<Rightarrow> bool"
  router_MatchingMount :: "string \<Rightarrow> string"
  router_Route :: "Request \<Rightarrow> Response option \<times> error option"
  tokenStore_Lookup :: "string \<Rightarrow> error + TokenEntry option"
  tokenStore_UseToken :: "TokenEntry \<Rightarrow> error option"
  tokenStore_Create :: "TokenEntry \<Rightarrow> error + string"
  policy_ACL :: "string list \<Rightarrow> error + ACL"
  expiration_Register :: "Request \<Rightarrow> Response \<Rightarrow> error + string"
  expiration_RegisterAuth :: "string \<Rightarrow> Auth \<Rightarrow> error option"
  auditBroker_LogRequest :: "Auth option \<Rightarrow> Request \<Rightarrow> error option"
  auditBroker_LogResponse ::
    "Auth option \<Rightarrow> Request \<Rightarrow> Response option \<Rightarrow> error option \<Rightarrow> error option"

text \<open>
  The calls the Core makes, in program order. \<open>Logged\<close> is a call of
  \<^verbatim>\<open>c.logger.Printf\<close>, named by its format string. Queries that only read
  (\<^verbatim>\<open>barrier.KeyLength\<close>, \<^verbatim>\<open>router.LoginPath\<close>, \<^verbatim>\<open>router.RootPath\<close>,
  \<^verbatim>\<open>router.MatchingMount\<close>) leave no event.
\<close>

datatype event =
    Logged string
  | CachePurge
  | Step step
  | MetricsStart
  | MetricsStop
  | PhysicalGet string
  | JsonUnmarshal bytes
  | BarrierUnseal bytes
  | BarrierSeal
  | BarrierGet string
  | BarrierPut Entry
  | BarrierDelete string
  | ShamirCombine "bytes list"
  | Memzero bytes
  | StandbySpawn
  | StopChClose
  | DoneChWait
  | DoneChClose
  | GenerateUUID string
  | HALockWith string string
  | LockLock
  | LockUnlock
  | LockValue
  | TokenLookup string
  | TokenUse TokenEntry
  | TokenCreate TokenEntry
  | PolicyACL "string list"
  | AuditRequest "Auth option" Request
  | AuditResponse "Auth option" Request "Response option" "error option"
  | Route Request
  | Register Request Response
  | RegisterAuth string Auth

subsection \<open>Error texts\<close>

definition digit_char :: "nat \<Rightarrow> char" where
  "digit_char d = ''0123456789'' ! d"

fun string_of_nat :: "nat \<Rightarrow> string" where
  "string_of_nat n =
     (if n < 10 then [digit_char n] else string_of_nat (n div 10) @ [digit_char (n mod 10)])"

declare string_of_nat.simps [simp del]

text \<open>The verb \<^verbatim>\<open>%d\<close> of package \<^verbatim>\<open>fmt\<close> on an \<^verbatim>\<open>int\<close>.\<close>

definition string_of_int :: "int \<Rightarrow> string" where
  "string_of_int i =
     (if i < 0 then CHR ''-'' # string_of_nat (nat (- i)) else string_of_nat (nat i))"

text \<open>The method \<^verbatim>\<open>Error()\<close> of an error value.\<close>

fun Error :: "env \<Rightarrow> error \<Rightarrow> string" where
  "Error E ErrSealed = ''Vault is sealed''"
| "Error E ErrStandby = ''Vault is in standby mode''"
| "Error E ErrAlreadyInit = ''Vault is already initialized''"
| "Error E ErrNotInit = ''Vault is not initialized''"
| "Error E ErrInternalError = ''internal error''"
| "Error E ErrHANotEnabled = ''Vault is not configured for highly-available mode''"
| "Error E (ErrInvalidKey reason) = ''invalid key: '' @ reason"
| "Error E ErrPermissionDenied = permission_denied_text E"
| "Error E ErrInvalidRequest = invalid_request_text E"
| "Error E (Errorf text) = text"

subsection \<open>Seal configuration\<close>

definition Validate :: "SealConfig \<Rightarrow> error option" where
  "Validate s =
     (if SecretShares s < 1 then Some (Errorf ''secret shares must be at least one'')
      else if SecretThreshold s < 1 then Some (Errorf ''secret threshold must be at least one'')
      else if SecretShares s > 255 then Some (Errorf ''secret shares must be less than 256'')
      else if SecretThreshold s > 255 then Some (Errorf ''secret threshold must be less than 256'')
      else if SecretThreshold s > SecretShares s
        then Some (Errorf ''secret threshold cannot be larger than secret shares'')
      else None)"

text \<open>The method \<^verbatim>\<open>Core.SealConfig\<close>: \<open>Inr None\<close> is the result \<^verbatim>\<open>(nil, nil)\<close>.\<close>

definition Core_SealConfig :: "env \<Rightarrow> (error + SealConfig option) \<times> event list" where
  "Core_SealConfig E =
     (case physical_Get E coreSealConfigPath of
        Inl err \<Rightarrow>
          (Inl (Errorf (''failed to check seal configuration: '' @ Error E err)),
           [PhysicalGet coreSealConfigPath,
            Logged ''[ERR] core: failed to read seal configuration: %v''])
      | Inr None \<Rightarrow>
          (Inr None,
           [PhysicalGet coreSealConfigPath,
            Logged ''[INFO] core: seal configuration missing, not initialized''])
      | Inr (Some pe) \<Rightarrow>
          (case json_Unmarshal E (pe_Value pe) of
             Inl err \<Rightarrow>
               (Inl (Errorf (''failed to decode seal configuration: '' @ Error E err)),
                [PhysicalGet coreSealConfigPath, JsonUnmarshal (pe_Value pe),
                 Logged ''[ERR] core: failed to decode seal configuration: %v''])
           | Inr conf \<Rightarrow>
               (case Validate conf of
                  Some err \<Rightarrow>
                    (Inl (Errorf (''seal validation failed: '' @ Error E err)),
                     [PhysicalGet coreSealConfigPath, JsonUnmarshal (pe_Value pe),
                      Logged ''[ERR] core: invalid seal configuration: %v''])
                | None \<Rightarrow>
                    (Inr (Some conf),
                     [PhysicalGet coreSealConfigPath, JsonUnmarshal (pe_Value pe)]))))"

definition SecretProgress :: "Core \<Rightarrow> int" where
  "SecretProgress c = int (length (unlockParts c))"

subsection \<open>Bring-up and tear-down\<close>

text \<open>
  \<^verbatim>\<open>postUnseal\<close>: the steps in the order of the source. A failing
  \<open>SetupPolicyStore\<close>, \<open>LoadCredentials\<close> or \<open>SetupCredentials\<close> ends the function
  with \<^verbatim>\<open>return nil\<close>; every other failing step with \<^verbatim>\<open>return err\<close>.
\<close>

definition postUnseal :: "env \<Rightarrow> Core \<Rightarrow> error option \<times> Core \<times> event list" where
  "postUnseal E c =
     (let ev0 = Logged ''[INFO] core: post-unseal setup starting''
                # (if physical_is_cache c then [CachePurge] else []);
          ev1 = ev0 @ [Step LoadMounts];
          ev2 = ev1 @ [Step SetupMounts];
          ev3 = ev2 @ [Step StartRollback];
          ev4 = ev3 @ [Step SetupPolicyStore];
          ev5 = ev4 @ [Step LoadCredentials];
          ev6 = ev5 @ [Step SetupCredentials];
          ev7 = ev6 @ [Step SetupExpiration];
          ev8 = ev7 @ [Step LoadAudits];
          ev9 = ev8 @ [Step SetupAudits]
      in
      case lifecycle E LoadMounts of Some err \<Rightarrow> (Some err, c, ev1) | None \<Rightarrow>
      case lifecycle E SetupMounts of Some err \<Rightarrow> (Some err, c, ev2) | None \<Rightarrow>
      case lifecycle E StartRollback of Some err \<Rightarrow> (Some err, c, ev3) | None \<Rightarrow>
      case lifecycle E SetupPolicyStore of Some err \<Rightarrow> (None, c, ev4) | None \<Rightarrow>
      case lifecycle E LoadCredentials of Some err \<Rightarrow> (None, c, ev5) | None \<Rightarrow>
      case lifecycle E SetupCredentials of Some err \<Rightarrow> (None, c, ev6) | None \<Rightarrow>
      case lifecycle E SetupExpiration of Some err \<Rightarrow> (Some err, c, ev7) | None \<Rightarrow>
      case lifecycle E LoadAudits of Some err \<Rightarrow> (Some err, c, ev8) | None \<Rightarrow>
      case lifecycle E SetupAudits of Some err \<Rightarrow> (Some err, c, ev9) | None \<Rightarrow>
        (None, c\<lparr>metricsCh := True\<rparr>,
         ev9 @ [MetricsStart, Logged ''[INFO] core: post-unseal setup complete'']))"

definition preSeal :: "env \<Rightarrow> Core \<Rightarrow> error option \<times> Core \<times> event list" where
  "preSeal E c =
     (let ev0 = Logged ''[INFO] core: pre-seal teardown starting''
                # (if metricsCh c then [MetricsStop] else []);
          c0 = (if metricsCh c then c\<lparr>metricsCh := False\<rparr> else c);
          ev1 = ev0 @ [Step TeardownAudits];
          ev2 = ev1 @ [Step StopExpiration];
          ev3 = ev2 @ [Step TeardownCredentials];
          ev4 = ev3 @ [Step TeardownPolicyStore];
          ev5 = ev4 @ [Step StopRollback];
          ev6 = ev5 @ [Step UnloadMounts]
      in
      case lifecycle E TeardownAudits of Some err \<Rightarrow> (Some err, c0, ev1) | None \<Rightarrow>
      case lifecycle E StopExpiration of Some err \<Rightarrow> (Some err, c0, ev2) | None \<Rightarrow>
      case lifecycle E TeardownCredentials of Some err \<Rightarrow> (Some err, c0, ev3) | None \<Rightarrow>
      case lifecycle E TeardownPolicyStore of Some err \<Rightarrow> (Some err, c0, ev4) | None \<Rightarrow>
      case lifecycle E StopRollback of Some err \<Rightarrow> (Some err, c0, ev5) | None \<Rightarrow>
      case lifecycle E UnloadMounts of Some err \<Rightarrow> (Some err, c0, ev6) | None \<Rightarrow>
        (None, c0,
         ev6 @ (if physical_is_cache c then [CachePurge] else [])
             @ [Logged ''[INFO] core: pre-seal teardown complete'']))"

subsection \<open>Unseal\<close>

text \<open>
  \<^verbatim>\<open>Unseal\<close> from \<^verbatim>\<open>barrier.Unseal(masterKey)\<close> on (the deferred
  \<^verbatim>\<open>memzero(masterKey)\<close> runs at each return of this part).
\<close>

definition Unseal_attempt ::
  "env \<Rightarrow> Core \<Rightarrow> bytes \<Rightarrow> event list \<Rightarrow> (bool \<times> error option) \<times> Core \<times> event list" where
  "Unseal_attempt E c masterKey ev =
     (case barrier_Unseal E masterKey of
        Some err \<Rightarrow> ((False, Some err), c, ev @ [BarrierUnseal masterKey, Memzero masterKey])
      | None \<Rightarrow>
          (let ev1 = ev @ [BarrierUnseal masterKey, Logged ''[INFO] core: vault is unsealed''] in
           if \<not> ha c then
             (case postUnseal E (c\<lparr>standby := False\<rparr>) of
                (Some err, c2, evp) \<Rightarrow>
                  ((False, Some err), c2,
                   ev1 @ evp @ [Logged ''[ERR] core: post-unseal setup failed: %v'', BarrierSeal,
                                Logged ''[WARN] core: vault is sealed'', Memzero masterKey])
              | (None, c2, evp) \<Rightarrow>
                  ((True, None), c2\<lparr>sealed := False\<rparr>, ev1 @ evp @ [Memzero masterKey]))
           else
             ((True, None),
              c\<lparr>standbyDoneCh := Some ChOpen, standbyStopCh := Some ChOpen, sealed := False\<rparr>,
              ev1 @ [StandbySpawn, Memzero masterKey])))"

text \<open>
  \<^verbatim>\<open>Unseal\<close> once the threshold is reached: the master key is the first part when the
  threshold is one, the Shamir combination otherwise; \<^verbatim>\<open>c.unlockParts = nil\<close> in both
  branches, before the outcome is known. The caller has just appended the key, so the
  list has a first part \<^verbatim>\<open>c.unlockParts[0]\<close>; it is passed as \<open>first\<close>.
\<close>

definition Unseal_recover ::
  "env \<Rightarrow> Core \<Rightarrow> SealConfig \<Rightarrow> bytes \<Rightarrow> event list
     \<Rightarrow> (bool \<times> error option) \<times> Core \<times> event list" where
  "Unseal_recover E c config first ev =
     (let parts = unlockParts c; c2 = c\<lparr>unlockParts := []\<rparr> in
      if SecretThreshold config = 1 then Unseal_attempt E c2 first ev
      else
        (case shamir_Combine E parts of
           Inl err \<Rightarrow>
             ((False, Some (Errorf (''failed to compute master key: '' @ Error E err))), c2,
              ev @ [ShamirCombine parts])
         | Inr masterKey \<Rightarrow> Unseal_attempt E c2 masterKey (ev @ [ShamirCombine parts])))"

definition Unseal :: "env \<Rightarrow> Core \<Rightarrow> bytes \<Rightarrow> (bool \<times> error option) \<times> Core \<times> event list" where
  "Unseal E c key =
     (let min = fst (barrier_KeyLength E);
          max = snd (barrier_KeyLength E) + ShareOverhead E
      in
      if int (length key) < min then
        ((False, Some (ErrInvalidKey
            (''key is shorter than minimum '' @ string_of_int min @ '' bytes''))), c, [])
      else if int (length key) > max then
        ((False, Some (ErrInvalidKey
            (''key is longer than maximum '' @ string_of_int max @ '' bytes''))), c, [])
      else
        (case Core_SealConfig E of
           (Inl err, ev) \<Rightarrow> ((False, Some err), c, ev)
         | (Inr None, ev) \<Rightarrow> ((False, Some ErrNotInit), c, ev)
         | (Inr (Some config), ev) \<Rightarrow>
             if \<not> sealed c then ((True, None), c, ev)
             else if key \<in> set (unlockParts c) then ((False, None), c, ev)
             else
               (let c1 = c\<lparr>unlockParts := unlockParts c @ [key]\<rparr> in
                if int (length (unlockParts c1)) < SecretThreshold config then
                  ((False, None), c1,
                   ev @ [Logged ''[DEBUG] core: cannot unseal, have %d of %d keys''])
                else
                  Unseal_recover E c1 config
                    (case unlockParts c of [] \<Rightarrow> key | p # ps \<Rightarrow> p) ev)))"

subsection \<open>Token check\<close>

definition checkToken ::
  "env \<Rightarrow> Operation \<Rightarrow> string \<Rightarrow> string \<Rightarrow> (error + Auth) \<times> event list" where
  "checkToken E op path token =
     (if token = [] then (Inl (Errorf ''missing client token''), [])
      else
        (case tokenStore_Lookup E token of
           Inl err \<Rightarrow>
             (Inl ErrInternalError,
              [TokenLookup token, Logged ''[ERR] core: failed to lookup token: %v''])
         | Inr None \<Rightarrow> (Inl ErrPermissionDenied, [TokenLookup token])
         | Inr (Some te) \<Rightarrow>
             (case tokenStore_UseToken E te of
                Some err \<Rightarrow>
                  (Inl ErrInternalError,
                   [TokenLookup token, TokenUse te, Logged ''[ERR] core: failed to use token: %v''])
              | None \<Rightarrow>
                  (case policy_ACL E (te_Policies te) of
                     Inl err \<Rightarrow>
                       (Inl ErrInternalError,
                        [TokenLookup token, TokenUse te, PolicyACL (te_Policies te),
                         Logged ''[ERR] core: failed to construct ACL: %v''])
                   | Inr acl \<Rightarrow>
                       (let ev = [TokenLookup token, TokenUse te, PolicyACL (te_Policies te)] in
                        if router_RootPath E path \<and> \<not> acl_RootPrivilege acl path
                          then (Inl ErrPermissionDenied, ev)
                        else if \<not> acl_AllowOperation acl op path
                          then (Inl ErrPermissionDenied, ev)
                        else
                          (Inr \<lparr>auth_ClientToken = token, auth_Policies = te_Policies te,
                                auth_Metadata = te_Meta te, auth_DisplayName = te_DisplayName te,
                                auth_Lease = 0\<rparr>, ev))))))"

subsection \<open>Seal\<close>

text \<open>
  The last part of \<^verbatim>\<open>Seal\<close>: \<^verbatim>\<open>c.barrier.Seal()\<close> and the final log line.
\<close>

definition Seal_barrier :: "env \<Rightarrow> Core \<Rightarrow> event list \<Rightarrow> error option \<times> Core \<times> event list" where
  "Seal_barrier E c ev =
     (case barrier_Seal E of
        Some err \<Rightarrow> (Some err, c, ev @ [BarrierSeal])
      | None \<Rightarrow> (None, c, ev @ [BarrierSeal, Logged ''[INFO] core: vault is sealed'']))"

text \<open>
  \<^verbatim>\<open>Seal\<close>. With an HA backend the function closes the stop channel and waits for the
  standby routine to close the done channel; the model records both as events and takes
  the wait as returning. Closing a \<^verbatim>\<open>nil\<close> or closed channel panics in Go: the result
  is then \<open>Inl\<close> of the panic's text.
\<close>

definition Seal :: "env \<Rightarrow> Core \<Rightarrow> string \<Rightarrow> (string + error option) \<times> Core \<times> event list" where
  "Seal E c token =
     (if sealed c then (Inr None, c, [])
      else
        (case checkToken E WriteOperation ''sys/seal'' token of
           (Inl err, ev) \<Rightarrow> (Inr (Some err), c, ev)
         | (Inr auth, ev) \<Rightarrow>
             (let c1 = c\<lparr>sealed := True\<rparr> in
              if \<not> ha c1 then
                (case preSeal E c1 of
                   (Some err, c2, evp) \<Rightarrow>
                     (Inr (Some (Errorf ''internal error'')), c2,
                      ev @ evp @ [Logged ''[ERR] core: pre-seal teardown failed: %v''])
                 | (None, c2, evp) \<Rightarrow>
                     (case Seal_barrier E c2 (ev @ evp) of (r, c3, ev3) \<Rightarrow> (Inr r, c3, ev3)))
              else
                (case standbyStopCh c1 of
                   None \<Rightarrow> (Inl ''close of nil channel'', c1, ev)
                 | Some ChClosed \<Rightarrow> (Inl ''close of closed channel'', c1, ev)
                 | Some ChOpen \<Rightarrow>
                     (case Seal_barrier E (c1\<lparr>standbyStopCh := Some ChClosed\<rparr>)
                             (ev @ [StopChClose, DoneChWait]) of
                        (r, c3, ev3) \<Rightarrow> (Inr r, c3, ev3))))))"

subsection \<open>Request pipeline\<close>

text \<open>
  Modelled from the spec: \<^verbatim>\<open>strListContains\<close> is declared in another file; a root
  policy holder is a token whose policies include \<^verbatim>\<open>root\<close>.
\<close>

definition strListContains :: "string list \<Rightarrow> string \<Rightarrow> bool" where
  "strListContains haystack needle = (needle \<in> set haystack)"

text \<open>
  Modelled from the spec: \<^verbatim>\<open>logical.ErrorResponse\<close> is declared in package
  \<^verbatim>\<open>logical\<close>; the message is carried in the response body.
\<close>

definition ErrorResponse :: "string \<Rightarrow> Response" where
  "ErrorResponse text =
     \<lparr>resp_Secret = None, resp_Auth = None, resp_Data = [''error'' \<mapsto> text]\<rparr>"

text \<open>The functions of package \<^verbatim>\<open>strings\<close> that the login path uses.\<close>

definition TrimPrefix :: "string \<Rightarrow> string \<Rightarrow> string" where
  "TrimPrefix s p = (if prefix p s then drop (length p) s else s)"

definition TrimSuffix :: "string \<Rightarrow> string \<Rightarrow> string" where
  "TrimSuffix s x = (if suffix x s then take (length s - length x) s else s)"

text \<open>\<^verbatim>\<open>strings.Replace(s, "/", "-", -1)\<close>: every slash becomes a dash.\<close>

definition Replace_slash_dash :: "string \<Rightarrow> string" where
  "Replace_slash_dash s = map (\<lambda>ch. if ch = CHR ''/'' then CHR ''-'' else ch) s"

text \<open>
  The lease of a secret as \<^verbatim>\<open>handleRequest\<close> sets it before registration: the default
  for zero, then the maximum as a cap.
\<close>

definition clampSecret :: "env \<Rightarrow> Secret \<Rightarrow> Secret" where
  "clampSecret E s =
     (let s1 = (if secret_Lease s = 0 then s\<lparr>secret_Lease := defaultLeaseDuration E\<rparr> else s)
      in if secret_Lease s1 > maxLeaseDuration E then s1\<lparr>secret_Lease := maxLeaseDuration E\<rparr>
         else s1)"

text \<open>The same for an auth block; a holder of the policy \<^verbatim>\<open>root\<close> gets no default.\<close>

definition clampAuth :: "env \<Rightarrow> Auth \<Rightarrow> Auth" where
  "clampAuth E a =
     (let a1 = (if auth_Lease a = 0 \<and> \<not> strListContains (auth_Policies a) ''root''
                then a\<lparr>auth_Lease := defaultLeaseDuration E\<rparr> else a)
      in if auth_Lease a1 > maxLeaseDuration E then a1\<lparr>auth_Lease := maxLeaseDuration E\<rparr>
         else a1)"

text \<open>
  The end of both request paths: audit the response, then return the routed response and
  the routed error.
\<close>

definition auditResponse ::
  "env \<Rightarrow> Auth option \<Rightarrow> Request \<Rightarrow> Response option \<Rightarrow> error option \<Rightarrow> event list
     \<Rightarrow> (Response option \<times> error option) \<times> event list" where
  "auditResponse E auth req resp err ev =
     (case auditBroker_LogResponse E auth req resp err of
        Some e \<Rightarrow>
          ((None, Some ErrInternalError),
           ev @ [AuditResponse auth req resp err,
                 Logged ''[ERR] core: failed to audit response (request: %#v, response: %#v): %v''])
      | None \<Rightarrow> ((resp, err), ev @ [AuditResponse auth req resp err]))"

text \<open>
  \<^verbatim>\<open>handleRequest\<close>, the block on \<^verbatim>\<open>resp.Auth\<close>: only a path under
  \<^verbatim>\<open>auth/token/\<close> may answer with an auth block; the lease is set and the auth is
  registered, whatever its policies.
\<close>

definition handleRequest_auth ::
  "env \<Rightarrow> Auth \<Rightarrow> Request \<Rightarrow> Response option \<Rightarrow> error option \<Rightarrow> event list
     \<Rightarrow> (Response option \<times> error option) \<times> event list" where
  "handleRequest_auth E auth req resp err ev =
     (case resp of
        None \<Rightarrow> auditResponse E (Some auth) req resp err ev
      | Some r \<Rightarrow>
          (case resp_Auth r of
             None \<Rightarrow> auditResponse E (Some auth) req resp err ev
           | Some a \<Rightarrow>
               if \<not> prefix ''auth/token/'' (req_Path req) then
                 ((None, Some ErrInternalError),
                  ev @ [Logged (''[ERR] core: unexpected Auth response for non-token backend ''
                                @ ''(request: %#v, response: %#v)'')])
               else
                 (let a2 = clampAuth E a; r2 = r\<lparr>resp_Auth := Some a2\<rparr> in
                  case expiration_RegisterAuth E (req_Path req) a2 of
                    Some e \<Rightarrow>
                      ((None, Some ErrInternalError),
                       ev @ [RegisterAuth (req_Path req) a2,
                             Logged (''[ERR] core: failed to register token lease ''
                                     @ ''(request: %#v, response: %#v): %v'')])
                  | None \<Rightarrow>
                      auditResponse E (Some auth) req (Some r2) err
                        (ev @ [RegisterAuth (req_Path req) a2]))))"

text \<open>
  \<^verbatim>\<open>handleRequest\<close>, the block on \<^verbatim>\<open>resp.Secret\<close>: the lease is set, the response
  is registered, and the lease id is written into the response.
\<close>

definition handleRequest_secret ::
  "env \<Rightarrow> Auth \<Rightarrow> Request \<Rightarrow> Response option \<Rightarrow> error option \<Rightarrow> event list
     \<Rightarrow> (Response option \<times> error option) \<times> event list" where
  "handleRequest_secret E auth req resp err ev =
     (case resp of
        None \<Rightarrow> handleRequest_auth E auth req resp err ev
      | Some r \<Rightarrow>
          (case resp_Secret r of
             None \<Rightarrow> handleRequest_auth E auth req resp err ev
           | Some s \<Rightarrow>
               (let s2 = clampSecret E s; r2 = r\<lparr>resp_Secret := Some s2\<rparr> in
                case expiration_Register E req r2 of
                  Inl e \<Rightarrow>
                    ((None, Some ErrInternalError),
                     ev @ [Register req r2,
                           Logged (''[ERR] core: failed to register lease ''
                                   @ ''(request: %#v, response: %#v): %v'')])
                | Inr leaseID \<Rightarrow>
                    handleRequest_auth E auth req
                      (Some (r2\<lparr>resp_Secret := Some (s2\<lparr>secret_LeaseID := leaseID\<rparr>)\<rparr>)) err
                      (ev @ [Register req r2]))))"

definition handleRequest :: "env \<Rightarrow> Request \<Rightarrow> (Response option \<times> error option) \<times> event list" where
  "handleRequest E req =
     (case checkToken E (req_Operation req) (req_Path req) (req_ClientToken req) of
        (Inl err, ev) \<Rightarrow>
          ((Some (ErrorResponse (Error E err)),
            Some (if err = ErrInternalError \<or> err = ErrPermissionDenied then err
                  else ErrInvalidRequest)), ev)
      | (Inr auth, ev) \<Rightarrow>
          (let req1 = req\<lparr>req_DisplayName := auth_DisplayName auth\<rparr> in
           case auditBroker_LogRequest E (Some auth) req1 of
             Some e \<Rightarrow>
               ((None, Some ErrInternalError),
                ev @ [AuditRequest (Some auth) req1,
                      Logged ''[ERR] core: failed to audit request (%#v): %v''])
           | None \<Rightarrow>
               handleRequest_secret E auth req1 (fst (router_Route E req1))
                 (snd (router_Route E req1)) (ev @ [AuditRequest (Some auth) req1, Route req1])))"

text \<open>
  \<^verbatim>\<open>handleLoginRequest\<close>. The variable \<^verbatim>\<open>auth\<close> is the pointer \<^verbatim>\<open>resp.Auth\<close>, so
  every write to one is a write to the other.
\<close>

definition handleLoginRequest ::
  "env \<Rightarrow> Request \<Rightarrow> (Response option \<times> error option) \<times> event list" where
  "handleLoginRequest E req =
     (case auditBroker_LogRequest E None req of
        Some e \<Rightarrow>
          ((None, Some ErrInternalError),
           [AuditRequest None req, Logged ''[ERR] core: failed to audit request (%#v): %v''])
      | None \<Rightarrow>
          (let resp = fst (router_Route E req); err = snd (router_Route E req);
               ev = [AuditRequest None req, Route req]
           in
           case resp of
             None \<Rightarrow> auditResponse E None req resp err ev
           | Some r \<Rightarrow>
               (case resp_Auth r of
                  None \<Rightarrow> auditResponse E None req resp err ev
                | Some a \<Rightarrow>
                    (let source = Replace_slash_dash
                           (TrimPrefix (router_MatchingMount E (req_Path req))
                              (credentialRoutePrefix E));
                         a1 = a\<lparr>auth_DisplayName :=
                                  TrimSuffix (source @ auth_DisplayName a) ''-''\<rparr>;
                         te = \<lparr>te_ID = [], te_Path = req_Path req,
                               te_Policies = auth_Policies a1, te_Meta = auth_Metadata a1,
                               te_DisplayName = auth_DisplayName a1\<rparr>
                     in
                     case tokenStore_Create E te of
                       Inl e \<Rightarrow>
                         ((None, Some ErrInternalError),
                          ev @ [TokenCreate te, Logged ''[ERR] core: failed to create token: %v''])
                     | Inr tokenID \<Rightarrow>
                         (let a3 = clampAuth E (a1\<lparr>auth_ClientToken := tokenID\<rparr>);
                              r3 = r\<lparr>resp_Auth := Some a3\<rparr>
                          in
                          case expiration_RegisterAuth E (req_Path req) a3 of
                            Some e \<Rightarrow>
                              ((None, Some ErrInternalError),
                               ev @ [TokenCreate te, RegisterAuth (req_Path req) a3,
                                     Logged (''[ERR] core: failed to register token lease ''
                                             @ ''(request: %#v, response: %#v): %v'')])
                          | None \<Rightarrow>
                              auditResponse E (Some a3)
                                (req\<lparr>req_DisplayName := auth_DisplayName a3\<rparr>) (Some r3) err
                                (ev @ [TokenCreate te, RegisterAuth (req_Path req) a3]))))))"

definition HandleRequest ::
  "env \<Rightarrow> Core \<Rightarrow> Request \<Rightarrow> (Response option \<times> error option) \<times> event list" where
  "HandleRequest E c req =
     (if sealed c then ((None, Some ErrSealed), [])
      else if standby c then ((None, Some ErrStandby), [])
      else if router_LoginPath E (req_Path req) then handleLoginRequest E req
      else handleRequest E req)"

subsection \<open>Leadership\<close>

definition Leader :: "env \<Rightarrow> Core \<Rightarrow> (bool \<times> string \<times> error option) \<times> event list" where
  "Leader E c =
     (if \<not> ha c then ((False, [], Some ErrHANotEnabled), [])
      else if sealed c then ((False, [], Some ErrSealed), [])
      else if \<not> standby c then ((True, advertiseAddr c, None), [])
      else
        (case ha_LockWith E coreLockPath ''read'' of
           Inl err \<Rightarrow> ((False, [], Some err), [HALockWith coreLockPath ''read''])
         | Inr lock \<Rightarrow>
             (case lock_Value lock of
                Inl err \<Rightarrow> ((False, [], Some err), [HALockWith coreLockPath ''read'', LockValue])
              | Inr (held, val) \<Rightarrow>
                  if \<not> held then
                    ((False, [], None), [HALockWith coreLockPath ''read'', LockValue])
                  else
                    (let key = coreLeaderPrefix @ val;
                         ev = [HALockWith coreLockPath ''read'', LockValue, BarrierGet key]
                     in
                     case barrier_Get E key of
                       Inl err \<Rightarrow> ((False, [], Some err), ev)
                     | Inr None \<Rightarrow> ((False, [], None), ev)
                     | Inr (Some entry) \<Rightarrow> ((False, Value entry, None), ev)))))"

definition advertiseLeader :: "env \<Rightarrow> Core \<Rightarrow> string \<Rightarrow> error option \<times> event list" where
  "advertiseLeader E c uuid =
     (let ent = \<lparr>Key = coreLeaderPrefix @ uuid, Value = advertiseAddr c\<rparr>
      in (barrier_Put E ent, [BarrierPut ent]))"

definition clearLeader :: "env \<Rightarrow> string \<Rightarrow> error option \<times> event list" where
  "clearLeader E uuid =
     (let key = coreLeaderPrefix @ uuid in (barrier_Delete E key, [BarrierDelete key]))"

subsection \<open>The standby loop\<close>

text \<open>
  The loop of \<^verbatim>\<open>runStandby\<close> waits on channels and may run for ever. The model runs
  it against a finite script: one \<open>round\<close> for each turn of the loop, which says what
  the outside world does during that turn. When the script ends, or says that a wait
  never ends, the routine has not returned (\<open>Blocked\<close>).

  One attempt of \<^verbatim>\<open>lock.Lock(stopCh)\<close> inside \<^verbatim>\<open>acquireLock\<close>: it fails with an
  error, after which the stop channel fires during the retry interval (\<open>True\<close>) or the
  interval elapses (\<open>False\<close>); or it returns a channel, which is \<^verbatim>\<open>nil\<close> (\<open>False\<close>)
  or not (\<open>True\<close>).
\<close>

datatype lock_try = LockFailed error bool | LockReturned bool

datatype wake = LeadershipLost | StopSignalled

record round =
  rd_stopped :: bool
  rd_uuid :: string
  rd_env :: env
  rd_tries :: "lock_try list"
  rd_wake :: "wake option"

text \<open>
  \<^verbatim>\<open>acquireLock\<close>: \<open>Some True\<close> for a channel, \<open>Some False\<close> for \<^verbatim>\<open>nil\<close>, \<open>None\<close>
  when the attempts of the script are used up and the function has not returned.
\<close>

fun acquireLock :: "lock_try list \<Rightarrow> bool option \<times> event list" where
  "acquireLock [] = (None, [])"
| "acquireLock (LockReturned ch # rest) = (Some ch, [LockLock])"
| "acquireLock (LockFailed err stop # rest) =
     (if stop then (Some False, [LockLock, Logged ''[ERR] core: failed to acquire lock: %v''])
      else (fst (acquireLock rest),
            [LockLock, Logged ''[ERR] core: failed to acquire lock: %v'']
              @ snd (acquireLock rest)))"

text \<open>
  The end of a turn of the loop, from \<^verbatim>\<open>clearLeader\<close> on: the node gives up the active
  role. \<^verbatim>\<open>preSeal\<close> is called under the state lock and its error kept in \<^verbatim>\<open>err\<close>;
  after \<^verbatim>\<open>lock.Unlock()\<close> the source calls \<^verbatim>\<open>c.preSeal()\<close> again and tests that
  second result.
\<close>

definition stepDown :: "env \<Rightarrow> Core \<Rightarrow> string \<Rightarrow> Core \<times> event list" where
  "stepDown E c uuid =
     (let ev0 = snd (clearLeader E uuid)
                @ (case fst (clearLeader E uuid) of
                     Some err \<Rightarrow> [Logged ''[ERR] core: clearing leader advertisement failed: %v'']
                   | None \<Rightarrow> [])
      in
      case preSeal E (c\<lparr>standby := True\<rparr>) of
        (err1, c1, evp1) \<Rightarrow>
          (case preSeal E c1 of
             (err2, c2, evp2) \<Rightarrow>
               (c2,
                ev0 @ evp1 @ [LockUnlock] @ evp2
                  @ (case err2 of
                       Some err \<Rightarrow> [Logged ''[ERR] core: pre-seal teardown failed: %v'']
                     | None \<Rightarrow> []))))"

datatype turn = Continue | Return | Blocked

text \<open>One turn of the loop of \<^verbatim>\<open>runStandby\<close>.\<close>

definition runStandby_turn :: "round \<Rightarrow> Core \<Rightarrow> turn \<times> Core \<times> event list" where
  "runStandby_turn r c =
     (if rd_stopped r then (Return, c, [])
      else
        (let E = rd_env r; uuid = rd_uuid r;
             ev0 = [GenerateUUID uuid, HALockWith coreLockPath uuid]
         in
         case ha_LockWith E coreLockPath uuid of
           Inl err \<Rightarrow> (Return, c, ev0 @ [Logged ''[ERR] core: failed to create lock: %v''])
         | Inr lock \<Rightarrow>
             (case acquireLock (rd_tries r) of
                (None, eva) \<Rightarrow> (Blocked, c, ev0 @ eva)
              | (Some False, eva) \<Rightarrow> (Return, c, ev0 @ eva)
              | (Some True, eva) \<Rightarrow>
                  (let ev1 = ev0 @ eva
                         @ [Logged ''[INFO] core: acquired lock, enabling active operation'']
                         @ snd (advertiseLeader E c uuid)
                   in
                   case fst (advertiseLeader E c uuid) of
                     Some err \<Rightarrow>
                       (Continue, c,
                        ev1 @ [Logged ''[ERR] core: leader advertisement setup failed: %v'',
                               LockUnlock])
                   | None \<Rightarrow>
                       (case postUnseal E c of
                          (Some err, c1, evp) \<Rightarrow>
                            (Continue, c1,
                             ev1 @ evp @ [Logged ''[ERR] core: post-unseal setup failed: %v'',
                                          LockUnlock])
                        | (None, c1, evp) \<Rightarrow>
                            (case rd_wake r of
                               None \<Rightarrow> (Blocked, c1\<lparr>standby := False\<rparr>, ev1 @ evp)
                             | Some w \<Rightarrow>
                                 (case stepDown E (c1\<lparr>standby := False\<rparr>) uuid of
                                    (c2, evd) \<Rightarrow>
                                      (Continue, c2,
                                       ev1 @ evp
                                         @ [Logged (case w of
                                              LeadershipLost \<Rightarrow>
                                                ''[WARN] core: leadership lost, stopping active operation''
                                            | StopSignalled \<Rightarrow>
                                                ''[WARN] core: stopping active operation'')]
                                         @ evd))))))))"

fun runStandby_loop :: "round list \<Rightarrow> Core \<Rightarrow> turn \<times> Core \<times> event list" where
  "runStandby_loop [] c = (Blocked, c, [])"
| "runStandby_loop (r # rs) c =
     (case runStandby_turn r c of
        (Continue, c1, ev) \<Rightarrow>
          (case runStandby_loop rs c1 of (t, c2, ev2) \<Rightarrow> (t, c2, ev @ ev2))
      | (t, c1, ev) \<Rightarrow> (t, c1, ev))"

text \<open>
  \<^verbatim>\<open>runStandby\<close>: \<open>True\<close> when the routine has returned (the deferred
  \<^verbatim>\<open>close(doneCh)\<close> is then the last event), \<open>False\<close> when it is still running at the
  end of the script.
\<close>

definition runStandby :: "round list \<Rightarrow> Core \<Rightarrow> bool \<times> Core \<times> event list" where
  "runStandby rs c =
     (case runStandby_loop rs c of
        (t, c1, ev) \<Rightarrow>
          (t = Return, c1,
           Logged ''[INFO] core: entering standby mode'' # ev
             @ (if t = Return then [DoneChClose] else [])))"

text \<open>How many times a trace enters \<^verbatim>\<open>preSeal\<close>: once for each of its opening log lines.\<close>

definition preSeal_calls :: "event list \<Rightarrow> nat" where
  "preSeal_calls ev = length (filter (\<lambda>e. e = Logged ''[INFO] core: pre-seal teardown starting'') ev)"

subsection \<open>A concrete deployment\<close>

text \<open>
  A small concrete instance of the collaborators, on which the theorems below are run:
  a 3-of-5 seal configuration, keys of four bytes (five with the share overhead), a
  barrier that opens for the master key \<open>''mkey''\<close> only, a Shamir primitive that
  recovers \<open>''mkey''\<close> from the five shares and something else from any other parts, one
  token holding the policy \<^verbatim>\<open>root\<close> and one holding the policy \<^verbatim>\<open>dev\<close>.
\<close>

definition shares0 :: "bytes list" where
  "shares0 = [''aaaa1'', ''bbbb2'', ''cccc3'', ''dddd4'', ''eeee5'']"

definition tokens0 :: "string \<Rightarrow> TokenEntry option" where
  "tokens0 t =
     (if t = ''root-token'' then
        Some \<lparr>te_ID = t, te_Path = ''auth/token/root'', te_Policies = [''root''],
              te_Meta = Map.empty, te_DisplayName = ''root''\<rparr>
      else if t = ''dev-token'' then
        Some \<lparr>te_ID = t, te_Path = ''auth/token/create'', te_Policies = [''dev''],
              te_Meta = Map.empty, te_DisplayName = ''token''\<rparr>
      else None)"

definition env0 :: env where
  "env0 =
     \<lparr>defaultLeaseDuration = 2592000, maxLeaseDuration = 2592000, ShareOverhead = 1,
      credentialRoutePrefix = ''auth/'',
      permission_denied_text = ''permission denied'',
      invalid_request_text = ''invalid request'',
      physical_Get = (\<lambda>k. if k = ''core/seal-config''
                           then Inr (Some \<lparr>pe_Key = k, pe_Value = ''3-of-5''\<rparr>) else Inr None),
      json_Unmarshal = (\<lambda>b. Inr \<lparr>SecretShares = 5, SecretThreshold = 3\<rparr>),
      barrier_KeyLength = (4, 4),
      barrier_Unseal = (\<lambda>k. if k = ''mkey'' then None
                             else Some (ErrInvalidKey ''wrong master key'')),
      barrier_Seal = None,
      barrier_Get = (\<lambda>k. if k = ''core/leader/uuid-A''
                          then Inr (Some \<lparr>Key = k, Value = ''https://a:8200''\<rparr>) else Inr None),
      barrier_Put = (\<lambda>e. None),
      barrier_Delete = (\<lambda>k. None),
      shamir_Combine = (\<lambda>parts. if set parts \<subseteq> set shares0 then Inr ''mkey''
                                 else Inr ''????''),
      ha_LockWith = (\<lambda>k v. Inr \<lparr>lock_Value = Inr (True, ''uuid-A'')\<rparr>),
      lifecycle = (\<lambda>s. None),
      router_LoginPath = (\<lambda>p. p = ''auth/userpass/login''),
      router_RootPath = (\<lambda>p. p = ''sys/seal''),
      router_MatchingMount = (\<lambda>p. ''auth/userpass/''),
      router_Route = (\<lambda>req. (None, None)),
      tokenStore_Lookup = (\<lambda>t. Inr (tokens0 t)),
      tokenStore_UseToken = (\<lambda>te. None),
      tokenStore_Create = (\<lambda>te. Inr ''new-token''),
      policy_ACL = (\<lambda>ps. Inr \<lparr>acl_RootPrivilege = (\<lambda>p. ''root'' \<in> set ps),
                               acl_AllowOperation = (\<lambda>op p. True)\<rparr>),
      expiration_Register = (\<lambda>req resp. Inr ''lease-1''),
      expiration_RegisterAuth = (\<lambda>p a. None),
      auditBroker_LogRequest = (\<lambda>a r. None),
      auditBroker_LogResponse = (\<lambda>a r resp e. None)\<rparr>"

text \<open>A freshly constructed core without HA backend, as \<^verbatim>\<open>NewCore\<close> leaves it.\<close>

definition core0 :: Core where
  "core0 =
     \<lparr>ha = False, advertiseAddr = [], physical_is_cache = False, sealed = True,
      standby = True, standbyDoneCh = None, standbyStopCh = None, unlockParts = [],
      metricsCh = False\<rparr>"

text \<open>The same core after a successful unseal: active, with the metrics routine running.\<close>

definition core_active :: Core where
  "core_active = core0\<lparr>sealed := False, standby := False, metricsCh := True\<rparr>"

text \<open>A core with an HA backend, advertising an address of its own.\<close>

definition core_ha :: Core where
  "core_ha = core0\<lparr>ha := True, advertiseAddr := ''https://b:8200''\<rparr>"

text \<open>The collaborators with one set-up or tear-down step failing.\<close>

definition env_failing :: "step \<Rightarrow> env" where
  "env_failing s =
     env0\<lparr>lifecycle := (\<lambda>x. if x = s then Some (Errorf ''step failed'') else None)\<rparr>"

text \<open>The collaborators with a router that answers every request with one response.\<close>

definition env_routing :: "Response \<Rightarrow> env" where
  "env_routing r = env0\<lparr>router_Route := (\<lambda>req. (Some r, None))\<rparr>"

text \<open>A 1-of-1 seal configuration: the single share is the master key.\<close>

definition env_1of1 :: env where
  "env_1of1 = env0\<lparr>json_Unmarshal := (\<lambda>b. Inr \<lparr>SecretShares = 1, SecretThreshold = 1\<rparr>)\<rparr>"

text \<open>Requests: a read with the \<^verbatim>\<open>dev\<close> token, a login, a read without a token.\<close>

definition req_read :: Request where
  "req_read = \<lparr>req_Operation = ReadOperation, req_Path = ''secret/foo'',
               req_ClientToken = ''dev-token'', req_DisplayName = []\<rparr>"

definition req_login :: Request where
  "req_login = \<lparr>req_Operation = WriteOperation, req_Path = ''auth/userpass/login'',
                req_ClientToken = [], req_DisplayName = []\<rparr>"

definition req_anonymous :: Request where
  "req_anonymous = \<lparr>req_Operation = ReadOperation, req_Path = ''secret/foo'',
                    req_ClientToken = [], req_DisplayName = []\<rparr>"

text \<open>The core after two of the five shares have been accepted.\<close>

definition core_two_parts :: Core where
  "core_two_parts = core0\<lparr>unlockParts := [''aaaa1'', ''bbbb2'']\<rparr>"

text \<open>The collaborators with a Shamir primitive that rejects the parts.\<close>

definition env_combine_fails :: env where
  "env_combine_fails =
     env0\<lparr>shamir_Combine := (\<lambda>parts. Inl (Errorf ''all parts must be the same length''))\<rparr>"

text \<open>
  Responses of a backend: one with an auth block and no secret, one with a secret of a
  given lease and no auth block. The auth block \<open>auth_root\<close> holds the policy
  \<^verbatim>\<open>root\<close> and asks for no lease.
\<close>

definition auth_root :: Auth where
  "auth_root = \<lparr>auth_ClientToken = ''child-token'', auth_Policies = [''root''],
                auth_Metadata = Map.empty, auth_DisplayName = ''token'', auth_Lease = 0\<rparr>"

definition resp_auth :: "Auth \<Rightarrow> Response" where
  "resp_auth a = \<lparr>resp_Secret = None, resp_Auth = Some a, resp_Data = Map.empty\<rparr>"

definition resp_secret :: "int \<Rightarrow> Response" where
  "resp_secret lease =
     \<lparr>resp_Secret = Some \<lparr>secret_Lease = lease, secret_LeaseID = []\<rparr>, resp_Auth = None,
      resp_Data = Map.empty\<rparr>"

text \<open>A request to the token store with the root token.\<close>

definition req_create :: Request where
  "req_create = \<lparr>req_Operation = WriteOperation, req_Path = ''auth/token/create'',
                 req_ClientToken = ''root-token'', req_DisplayName = []\<rparr>"

text \<open>The auth blocks that \<^verbatim>\<open>checkToken\<close> makes for the two tokens of the deployment.\<close>

definition auth_of_dev :: Auth where
  "auth_of_dev = \<lparr>auth_ClientToken = ''dev-token'', auth_Policies = [''dev''],
                  auth_Metadata = Map.empty, auth_DisplayName = ''token'', auth_Lease = 0\<rparr>"

definition auth_of_root :: Auth where
  "auth_of_root = \<lparr>auth_ClientToken = ''root-token'', auth_Policies = [''root''],
                  auth_Metadata = Map.empty, auth_DisplayName = ''root'', auth_Lease = 0\<rparr>"

text \<open>
  Scripts for the standby loop: a turn in which the lock is acquired at the first
  attempt, every collaborator succeeds and the active role ends by the given signal;
  and a turn that finds the stop channel closed.
\<close>

definition round_active :: "wake \<Rightarrow> round" where
  "round_active w =
     \<lparr>rd_stopped = False, rd_uuid = ''uuid-B'', rd_env = env0, rd_tries = [LockReturned True],
      rd_wake = Some w\<rparr>"

definition round_stopped :: round where
  "round_stopped =
     \<lparr>rd_stopped = True, rd_uuid = [], rd_env = env0, rd_tries = [], rd_wake = None\<rparr>"

text \<open>An unsealed HA core in standby, as \<^verbatim>\<open>Unseal\<close> leaves it.\<close>

definition core_standby :: Core where
  "core_standby =
     core_ha\<lparr>sealed := False, standbyDoneCh := Some ChOpen, standbyStopCh := Some ChOpen\<rparr>"

text \<open>
  How many times a trace leaves the active role: once for each log line after the wait on
  the leader channel and the stop channel.
\<close>

definition transitions :: "event list \<Rightarrow> nat" where
  "transitions ev =
     length (filter (\<lambda>e. e = Logged ''[WARN] core: leadership lost, stopping active operation''
                        \<or> e = Logged ''[WARN] core: stopping active operation'') ev)"

section \<open>Facts about the concrete deployment\<close>

lemma env0_fields:
  "defaultLeaseDuration env0 = 2592000" "maxLeaseDuration env0 = 2592000" "ShareOverhead env0 = 1"
  "credentialRoutePrefix env0 = ''auth/''"
  "permission_denied_text env0 = ''permission denied''"
  "invalid_request_text env0 = ''invalid request''"
  "physical_Get env0 = (\<lambda>k. if k = ''core/seal-config''
                           then Inr (Some \<lparr>pe_Key = k, pe_Value = ''3-of-5''\<rparr>) else Inr None)"
  "json_Unmarshal env0 = (\<lambda>b. Inr \<lparr>SecretShares = 5, SecretThreshold = 3\<rparr>)"
  "barrier_KeyLength env0 = (4, 4)"
  "barrier_Unseal env0 = (\<lambda>k. if k = ''mkey'' then None
                             else Some (ErrInvalidKey ''wrong master key''))"
  "barrier_Seal env0 = None"
  "barrier_Get env0 = (\<lambda>k. if k = ''core/leader/uuid-A''
                          then Inr (Some \<lparr>Key = k, Value = ''https://a:8200''\<rparr>) else Inr None)"
  "barrier_Put env0 = (\<lambda>e. None)"
  "barrier_Delete env0 = (\<lambda>k. None)"
  "shamir_Combine env0 = (\<lambda>parts. if set parts \<subseteq> set shares0 then Inr ''mkey''
                                 else Inr ''????'')"
  "ha_LockWith env0 = (\<lambda>k v. Inr \<lparr>lock_Value = Inr (True, ''uuid-A'')\<rparr>)"
  "lifecycle env0 = (\<lambda>s. None)"
  "router_LoginPath env0 = (\<lambda>p. p = ''auth/userpass/login'')"
  "router_RootPath env0 = (\<lambda>p. p = ''sys/seal'')"
  "router_MatchingMount env0 = (\<lambda>p. ''auth/userpass/'')"
  "router_Route env0 = (\<lambda>req. (None, None))"
  "tokenStore_Lookup env0 = (\<lambda>t. Inr (tokens0 t))"
  "tokenStore_UseToken env0 = (\<lambda>te. None)"
  "tokenStore_Create env0 = (\<lambda>te. Inr ''new-token'')"
  "policy_ACL env0 = (\<lambda>ps. Inr \<lparr>acl_RootPrivilege = (\<lambda>p. ''root'' \<in> set ps),
                               acl_AllowOperation = (\<lambda>op p. True)\<rparr>)"
  "expiration_Register env0 = (\<lambda>req resp. Inr ''lease-1'')"
  "expiration_RegisterAuth env0 = (\<lambda>p a. None)"
  "auditBroker_LogRequest env0 = (\<lambda>a r. None)"
  "auditBroker_LogResponse env0 = (\<lambda>a r resp e. None)"
  by (simp_all add: env0_def)

lemma SealConfig_env0:
  "Core_SealConfig env0 =
     (Inr (Some \<lparr>SecretShares = 5, SecretThreshold = 3\<rparr>),
      [PhysicalGet ''core/seal-config'', JsonUnmarshal ''3-of-5''])"
  by (simp add: Core_SealConfig_def env0_fields coreSealConfigPath_def Validate_def)

lemma SealConfig_env_1of1:
  "Core_SealConfig env_1of1 =
     (Inr (Some \<lparr>SecretShares = 1, SecretThreshold = 1\<rparr>),
      [PhysicalGet ''core/seal-config'', JsonUnmarshal ''3-of-5''])"
  by (simp add: Core_SealConfig_def env_1of1_def env0_fields coreSealConfigPath_def Validate_def)

lemma SealConfig_env_failing:
  "Core_SealConfig (env_failing s) =
     (Inr (Some \<lparr>SecretShares = 5, SecretThreshold = 3\<rparr>),
      [PhysicalGet ''core/seal-config'', JsonUnmarshal ''3-of-5''])"
  by (simp add: Core_SealConfig_def env_failing_def env0_fields coreSealConfigPath_def
        Validate_def)

text \<open>Scenario 3 of the specification: a key of 15 bytes against a barrier of 32-byte keys.\<close>

lemma Unseal_short_key:
  "Unseal (env0\<lparr>barrier_KeyLength := (32, 32)\<rparr>) core0 ''0123456789abcde'' =
     ((False, Some (ErrInvalidKey ''key is shorter than minimum 32 bytes'')), core0, [])"
  by (simp add: Unseal_def Let_def env0_fields string_of_int_def string_of_nat.simps
        digit_char_def)

text \<open>
  Scenario 2 of the specification, last step: with two shares accepted, a third share
  unseals the core and brings it to the active state.
\<close>

lemma Unseal_third_share:
  "fst (Unseal env0 (core0\<lparr>unlockParts := [''aaaa1'', ''bbbb2'']\<rparr>) ''dddd4'') = (True, None)
   \<and> fst (snd (Unseal env0 (core0\<lparr>unlockParts := [''aaaa1'', ''bbbb2'']\<rparr>) ''dddd4''))
       = core_active"
  by (simp add: Unseal_def Let_def Unseal_recover_def Unseal_attempt_def postUnseal_def
        SealConfig_env0 env0_fields core0_def shares0_def core_active_def)

lemma SealConfig_env_combine_fails:
  "Core_SealConfig env_combine_fails =
     (Inr (Some \<lparr>SecretShares = 5, SecretThreshold = 3\<rparr>),
      [PhysicalGet ''core/seal-config'', JsonUnmarshal ''3-of-5''])"
  by (simp add: Core_SealConfig_def env_combine_fails_def env0_fields coreSealConfigPath_def
        Validate_def)

lemma env_failing_fields:
  "lifecycle (env_failing s) = (\<lambda>x. if x = s then Some (Errorf ''step failed'') else None)"
  "barrier_KeyLength (env_failing s) = (4, 4)"
  "ShareOverhead (env_failing s) = 1"
  "shamir_Combine (env_failing s) = shamir_Combine env0"
  "barrier_Unseal (env_failing s) = barrier_Unseal env0"
  "barrier_Seal (env_failing s) = None"
  by (simp_all add: env_failing_def env0_fields)

lemma env_routing_fields:
  "router_Route (env_routing r) = (\<lambda>req. (Some r, None))"
  "defaultLeaseDuration (env_routing r) = 2592000"
  "maxLeaseDuration (env_routing r) = 2592000"
  "router_LoginPath (env_routing r) = router_LoginPath env0"
  "expiration_Register (env_routing r) = (\<lambda>req resp. Inr ''lease-1'')"
  "expiration_RegisterAuth (env_routing r) = (\<lambda>p a. None)"
  "auditBroker_LogRequest (env_routing r) = (\<lambda>a r. None)"
  "auditBroker_LogResponse (env_routing r) = (\<lambda>a r resp e. None)"
  by (simp_all add: env_routing_def env0_fields)

lemma checkToken_env0:
  "checkToken env0 ReadOperation ''secret/foo'' ''dev-token'' =
     (Inr auth_of_dev,
      [TokenLookup ''dev-token'',
       TokenUse \<lparr>te_ID = ''dev-token'', te_Path = ''auth/token/create'', te_Policies = [''dev''],
                 te_Meta = Map.empty, te_DisplayName = ''token''\<rparr>,
       PolicyACL [''dev'']])"
  "checkToken env0 WriteOperation ''auth/token/create'' ''root-token'' =
     (Inr auth_of_root,
      [TokenLookup ''root-token'',
       TokenUse \<lparr>te_ID = ''root-token'', te_Path = ''auth/token/root'', te_Policies = [''root''],
                 te_Meta = Map.empty, te_DisplayName = ''root''\<rparr>,
       PolicyACL [''root'']])"
  by (simp_all add: checkToken_def env0_fields tokens0_def auth_of_dev_def auth_of_root_def)

lemma checkToken_env_routing:
  "checkToken (env_routing r) op path token = checkToken env0 op path token"
  by (simp add: checkToken_def env_routing_def split: sum.splits option.splits)

lemma clampAuth_auth_root: "clampAuth (env_routing r) auth_root = auth_root"
  by (simp add: clampAuth_def Let_def strListContains_def auth_root_def env_routing_fields)

lemma req_create_token:
  "checkToken (env_routing r) (req_Operation req_create) (req_Path req_create)
     (req_ClientToken req_create) =
     (Inr auth_of_root,
      [TokenLookup ''root-token'',
       TokenUse \<lparr>te_ID = ''root-token'', te_Path = ''auth/token/root'', te_Policies = [''root''],
                 te_Meta = Map.empty, te_DisplayName = ''root''\<rparr>,
       PolicyACL [''root'']])"
  by (simp add: req_create_def checkToken_env_routing checkToken_env0)

lemma req_read_token:
  "checkToken (env_routing r) (req_Operation req_read) (req_Path req_read)
     (req_ClientToken req_read) =
     (Inr auth_of_dev,
      [TokenLookup ''dev-token'',
       TokenUse \<lparr>te_ID = ''dev-token'', te_Path = ''auth/token/create'', te_Policies = [''dev''],
                 te_Meta = Map.empty, te_DisplayName = ''token''\<rparr>,
       PolicyACL [''dev'']])"
  by (simp add: req_read_def checkToken_env_routing checkToken_env0)

section \<open>Facts about the request pipeline\<close>

lemma auditResponse_events:
  "set ev \<subseteq> set (snd (auditResponse E a rq rs er ev))"
  by (cases "auditBroker_LogResponse E a rq rs er") (auto simp: auditResponse_def)

lemma auditResponse_result:
  "fst (fst (auditResponse E a rq rs er ev)) = Some resp' \<Longrightarrow> rs = Some resp'"
  by (cases "auditBroker_LogResponse E a rq rs er") (auto simp: auditResponse_def)

lemma handleRequest_auth_events:
  "set ev \<subseteq> set (snd (handleRequest_auth E auth rq rs er ev))"
proof (cases rs)
  case None
  then show ?thesis by (simp add: handleRequest_auth_def auditResponse_events)
next
  case (Some r)
  show ?thesis
  proof (cases "resp_Auth r")
    case None
    with Some show ?thesis by (simp add: handleRequest_auth_def auditResponse_events)
  next
    case (Some a)
    note a = this
    show ?thesis
    proof (cases "expiration_RegisterAuth E (req_Path rq) (clampAuth E a)")
      case None
      have "set ev \<subseteq> set (ev @ [RegisterAuth (req_Path rq) (clampAuth E a)])" by auto
      also have "\<dots> \<subseteq> set (snd (auditResponse E (Some auth) rq
                     (Some (r\<lparr>resp_Auth := Some (clampAuth E a)\<rparr>)) er
                     (ev @ [RegisterAuth (req_Path rq) (clampAuth E a)])))"
        by (rule auditResponse_events)
      finally show ?thesis
        using \<open>rs = Some r\<close> a None
        by (cases "prefix ''auth/token/'' (req_Path rq)")
           (auto simp: handleRequest_auth_def Let_def)
    next
      case (Some e)
      then show ?thesis
        using \<open>rs = Some r\<close> a
        by (cases "prefix ''auth/token/'' (req_Path rq)")
           (auto simp: handleRequest_auth_def Let_def)
    qed
  qed
qed

lemma handleRequest_auth_result:
  assumes "fst (fst (handleRequest_auth E auth rq (Some r) er ev)) = Some resp'"
  shows "resp_Secret resp' = resp_Secret r"
proof (cases "resp_Auth r")
  case None
  with assms have "Some r = Some resp'"
    by (auto simp: handleRequest_auth_def dest: auditResponse_result)
  then show ?thesis by simp
next
  case (Some a)
  show ?thesis
  proof (cases "prefix ''auth/token/'' (req_Path rq)")
    case False
    with assms Some show ?thesis by (simp add: handleRequest_auth_def)
  next
    case True
    show ?thesis
    proof (cases "expiration_RegisterAuth E (req_Path rq) (clampAuth E a)")
      case None
      with assms Some True
      have "Some (r\<lparr>resp_Auth := Some (clampAuth E a)\<rparr>) = Some resp'"
        by (auto simp: handleRequest_auth_def Let_def dest: auditResponse_result)
      then have "resp' = r\<lparr>resp_Auth := Some (clampAuth E a)\<rparr>" by simp
      then show ?thesis by simp
    next
      case (Some e)
      with assms \<open>resp_Auth r = Some a\<close> True show ?thesis
        by (simp add: handleRequest_auth_def Let_def)
    qed
  qed
qed

lemma handleRequest_routed:
  assumes "checkToken E (req_Operation req) (req_Path req) (req_ClientToken req) = (Inr auth, ev0)"
    and "auditBroker_LogRequest E (Some auth) (req\<lparr>req_DisplayName := auth_DisplayName auth\<rparr>)
           = None"
  shows "handleRequest E req =
           handleRequest_secret E auth (req\<lparr>req_DisplayName := auth_DisplayName auth\<rparr>)
             (fst (router_Route E (req\<lparr>req_DisplayName := auth_DisplayName auth\<rparr>)))
             (snd (router_Route E (req\<lparr>req_DisplayName := auth_DisplayName auth\<rparr>)))
             (ev0 @ [AuditRequest (Some auth) (req\<lparr>req_DisplayName := auth_DisplayName auth\<rparr>),
                     Route (req\<lparr>req_DisplayName := auth_DisplayName auth\<rparr>)])"
  using assms by (simp add: handleRequest_def Let_def)

lemma clampAuth_lease:
  "(strListContains (auth_Policies a) ''root'' \<and> auth_Lease a = 0
      \<and> 0 \<le> maxLeaseDuration E \<longrightarrow> auth_Lease (clampAuth E a) = 0)
   \<and> (\<not> strListContains (auth_Policies a) ''root'' \<and> auth_Lease a = 0
        \<and> defaultLeaseDuration E \<le> maxLeaseDuration E \<longrightarrow>
        auth_Lease (clampAuth E a) = defaultLeaseDuration E)
   \<and> (auth_Lease a \<noteq> 0 \<and> maxLeaseDuration E < auth_Lease a \<longrightarrow>
        auth_Lease (clampAuth E a) = maxLeaseDuration E)"
  by (simp add: clampAuth_def Let_def)

lemma clampSecret_lease:
  "(secret_Lease s = 0 \<and> defaultLeaseDuration E \<le> maxLeaseDuration E \<longrightarrow>
      secret_Lease (clampSecret E s) = defaultLeaseDuration E)
   \<and> (secret_Lease s \<noteq> 0 \<and> maxLeaseDuration E < secret_Lease s \<longrightarrow>
        secret_Lease (clampSecret E s) = maxLeaseDuration E)"
  by (simp add: clampSecret_def Let_def)


lemma handleRequest_auth_registers:
  assumes au: "resp_Auth r = Some a" and path: "prefix ''auth/token/'' (req_Path rq)"
  shows "RegisterAuth (req_Path rq) (clampAuth E a)
           \<in> set (snd (handleRequest_auth E auth rq (Some r) er ev))"
proof (cases "expiration_RegisterAuth E (req_Path rq) (clampAuth E a)")
  case None
  have "RegisterAuth (req_Path rq) (clampAuth E a)
          \<in> set (ev @ [RegisterAuth (req_Path rq) (clampAuth E a)])" by simp
  then have "RegisterAuth (req_Path rq) (clampAuth E a)
          \<in> set (snd (auditResponse E (Some auth) rq
                     (Some (r\<lparr>resp_Auth := Some (clampAuth E a)\<rparr>)) er
                     (ev @ [RegisterAuth (req_Path rq) (clampAuth E a)])))"
    using auditResponse_events by blast
  then show ?thesis
    using au path None by (simp add: handleRequest_auth_def Let_def)
next
  case (Some e)
  then show ?thesis
    using au path by (simp add: handleRequest_auth_def Let_def)
qed

section \<open>Facts about the standby loop\<close>

lemma preSeal_calls_preSeal:
  "preSeal_calls (snd (snd (preSeal E c))) = 1"
  by (simp add: preSeal_def preSeal_calls_def Let_def split: option.splits)

text \<open>Every step down from the active role enters \<^verbatim>\<open>preSeal\<close> twice.\<close>

lemma stepDown_preSeal_calls:
  "preSeal_calls (snd (stepDown E c uuid)) = 2"
proof -
  obtain e1 c1 ev1 where p1: "preSeal E (c\<lparr>standby := True\<rparr>) = (e1, c1, ev1)"
    by (cases "preSeal E (c\<lparr>standby := True\<rparr>)") auto
  obtain e2 c2 ev2 where p2: "preSeal E c1 = (e2, c2, ev2)"
    by (cases "preSeal E c1") auto
  have n1: "preSeal_calls ev1 = 1" using preSeal_calls_preSeal [of E "c\<lparr>standby := True\<rparr>"] p1 by simp
  have n2: "preSeal_calls ev2 = 1" using preSeal_calls_preSeal [of E c1] p2 by simp
  show ?thesis
    using n1 n2
    by (simp add: stepDown_def p1 p2 Let_def clearLeader_def preSeal_calls_def
          split: option.splits)
qed

section \<open>The claims of the specification\<close>

subsection \<open>C1: failing steps of postUnseal\<close>

text \<open>
  Claim C1 says that every failing step of \<^verbatim>\<open>postUnseal\<close> makes it return the error,
  after which \<^verbatim>\<open>Unseal\<close> reseals the barrier and the core stays sealed. The code does
  so for the mounts, the rollback manager, the expiration manager and the audits. When
  \<^verbatim>\<open>setupPolicyStore\<close>, \<^verbatim>\<open>loadCredentials\<close> or \<^verbatim>\<open>setupCredentials\<close> fails,
  \<^verbatim>\<open>postUnseal\<close> returns \<^verbatim>\<open>nil\<close>: run from \<^verbatim>\<open>Unseal\<close> with the third of three
  required shares, the call reports success, the core is unsealed, the barrier is not
  resealed and the later steps have not run. A failing \<^verbatim>\<open>setupExpiration\<close> on the same
  input is returned, and the barrier resealed.
\<close>

theorem postUnseal_drops_setup_errors:
  "lifecycle (env_failing SetupPolicyStore) SetupPolicyStore = Some (Errorf ''step failed'')
   \<and> fst (postUnseal (env_failing SetupPolicyStore) core0) = None
   \<and> fst (postUnseal (env_failing LoadCredentials) core0) = None
   \<and> fst (postUnseal (env_failing SetupCredentials) core0) = None
   \<and> fst (Unseal (env_failing SetupPolicyStore) core_two_parts ''dddd4'') = (True, None)
   \<and> \<not> sealed (fst (snd (Unseal (env_failing SetupPolicyStore) core_two_parts ''dddd4'')))
   \<and> BarrierSeal \<notin> set (snd (snd (Unseal (env_failing SetupPolicyStore) core_two_parts ''dddd4'')))
   \<and> Step SetupExpiration
       \<notin> set (snd (snd (Unseal (env_failing SetupPolicyStore) core_two_parts ''dddd4'')))
   \<and> fst (Unseal (env_failing SetupExpiration) core_two_parts ''dddd4'')
       = (False, Some (Errorf ''step failed''))
   \<and> sealed (fst (snd (Unseal (env_failing SetupExpiration) core_two_parts ''dddd4'')))
   \<and> BarrierSeal \<in> set (snd (snd (Unseal (env_failing SetupExpiration) core_two_parts ''dddd4'')))"
  by (simp add: Unseal_def Let_def Unseal_recover_def Unseal_attempt_def postUnseal_def
        SealConfig_env_failing env_failing_fields env0_fields core0_def core_two_parts_def
        shares0_def)

subsection \<open>C2: a request without a token\<close>

text \<open>
  Claim C2 says that a request with an empty client token fails with
  \<open>ErrPermissionDenied\<close>. On the code \<^verbatim>\<open>checkToken\<close> answers the empty token with
  the error \<^verbatim>\<open>missing client token\<close>, which \<^verbatim>\<open>handleRequest\<close> reports as
  \<open>ErrInvalidRequest\<close>.
\<close>

theorem HandleRequest_empty_token_counterexample:
  "\<not> sealed core_active \<and> \<not> standby core_active
   \<and> \<not> router_LoginPath env0 (req_Path req_anonymous)
   \<and> req_ClientToken req_anonymous = []
   \<and> snd (fst (HandleRequest env0 core_active req_anonymous)) \<noteq> Some ErrPermissionDenied
   \<and> snd (fst (HandleRequest env0 core_active req_anonymous)) = Some ErrInvalidRequest"
  by (simp add: HandleRequest_def handleRequest_def checkToken_def core_active_def core0_def
        req_anonymous_def env0_fields)

text \<open>
  Claim C2, amended. On an unsealed active core, a request on a path that is not a login
  path and whose client token is empty fails with \<open>ErrInvalidRequest\<close>; the response
  carries the message \<^verbatim>\<open>missing client token\<close>, and no collaborator is called.
\<close>

theorem HandleRequest_empty_token:
  assumes "\<not> sealed c" and "\<not> standby c" and "\<not> router_LoginPath E (req_Path req)"
    and "req_ClientToken req = []"
  shows "HandleRequest E c req =
           ((Some (ErrorResponse ''missing client token''), Some ErrInvalidRequest), [])"
  using assms by (simp add: HandleRequest_def handleRequest_def checkToken_def)

theorem HandleRequest_empty_token_witness:
  "\<not> sealed core_active \<and> \<not> standby core_active
   \<and> \<not> router_LoginPath env0 (req_Path req_anonymous)
   \<and> req_ClientToken req_anonymous = []
   \<and> HandleRequest env0 core_active req_anonymous =
        ((Some \<lparr>resp_Secret = None, resp_Auth = None,
                resp_Data = [''error'' \<mapsto> ''missing client token'']\<rparr>,
          Some ErrInvalidRequest), [])"
proof -
  have h: "\<not> sealed core_active" "\<not> standby core_active"
    "\<not> router_LoginPath env0 (req_Path req_anonymous)" "req_ClientToken req_anonymous = []"
    by (simp_all add: core_active_def core0_def req_anonymous_def env0_fields)
  show ?thesis
    using h HandleRequest_empty_token [OF h] by (simp add: ErrorResponse_def)
qed

subsection \<open>C3: a wrong key at the threshold\<close>

text \<open>
  Claim C3 says that, with T - 1 shares accepted, a wrong key makes \<^verbatim>\<open>Unseal\<close> fail and
  leaves the accepted parts as they were. On the code the attempt fails, but the parts
  are gone: with two of three required shares accepted, a wrong key of accepted length
  takes \<^verbatim>\<open>SecretProgress\<close> from 2 to 0.
\<close>

theorem Unseal_wrong_key_counterexample:
  "fst (snd (Unseal env0 (fst (snd (Unseal env0 core0 ''aaaa1''))) ''bbbb2'')) = core_two_parts
   \<and> SecretProgress core_two_parts = 2
   \<and> fst (Unseal env0 core_two_parts ''wrong'')
       = (False, Some (ErrInvalidKey ''wrong master key''))
   \<and> unlockParts (fst (snd (Unseal env0 core_two_parts ''wrong''))) \<noteq> unlockParts core_two_parts
   \<and> SecretProgress (fst (snd (Unseal env0 core_two_parts ''wrong''))) = 0"
  by (simp add: Unseal_def Let_def Unseal_recover_def Unseal_attempt_def SecretProgress_def
        SealConfig_env0 env0_fields core0_def core_two_parts_def shares0_def)

text \<open>
  Claim C3, amended. For a sealed, initialized core, a key of accepted length that is not
  among the accepted parts and brings their number to the threshold T: after the call
  the list of accepted parts is empty (\<^verbatim>\<open>SecretProgress\<close> is 0), whatever the outcome.
  When the key is wrong the call fails and the core stays sealed: with the barrier's
  error when the barrier rejects the recovered master key (the lone part for T = 1, the
  Shamir combination otherwise), and with the error
  \<^verbatim>\<open>failed to compute master key: ...\<close> when the combination itself fails.
\<close>

theorem Unseal_failed_attempt:
  assumes len: "fst (barrier_KeyLength E) \<le> int (length key)"
               "int (length key) \<le> snd (barrier_KeyLength E) + ShareOverhead E"
    and init: "fst (Core_SealConfig E) = Inr (Some config)"
    and sealed: "sealed c"
    and new: "key \<notin> set (unlockParts c)"
    and thr: "SecretThreshold config \<le> int (length (unlockParts c)) + 1"
  shows "unlockParts (fst (snd (Unseal E c key))) = []
       \<and> SecretProgress (fst (snd (Unseal E c key))) = 0
       \<and> (SecretThreshold config = 1 \<and> barrier_Unseal E (hd (unlockParts c @ [key])) = Some e \<longrightarrow>
            fst (Unseal E c key) = (False, Some e) \<and> sealed (fst (snd (Unseal E c key))))
       \<and> (SecretThreshold config \<noteq> 1 \<and> shamir_Combine E (unlockParts c @ [key]) = Inl e \<longrightarrow>
            fst (Unseal E c key)
              = (False, Some (Errorf (''failed to compute master key: '' @ Error E e)))
            \<and> sealed (fst (snd (Unseal E c key))))
       \<and> (SecretThreshold config \<noteq> 1 \<and> shamir_Combine E (unlockParts c @ [key]) = Inr masterKey
            \<and> barrier_Unseal E masterKey = Some e \<longrightarrow>
            fst (Unseal E c key) = (False, Some e) \<and> sealed (fst (snd (Unseal E c key))))"
proof -
  obtain ev where cfg: "Core_SealConfig E = (Inr (Some config), ev)"
    using init by (cases "Core_SealConfig E") simp
  have post: "unlockParts (fst (snd (postUnseal E d))) = unlockParts d" for d
    by (simp add: postUnseal_def Let_def split: option.splits)
  have att: "unlockParts (fst (snd (Unseal_attempt E d k evs))) = unlockParts d" for d k evs
    using post [of "d\<lparr>standby := False\<rparr>"]
    by (auto simp: Unseal_attempt_def Let_def split: option.splits prod.splits)
  show ?thesis
    using len sealed new thr att
    by (auto simp: Unseal_def cfg Let_def Unseal_recover_def SecretProgress_def
          Unseal_attempt_def split: sum.splits list.splits)
qed

theorem Unseal_failed_attempt_witness:
  "sealed core_two_parts \<and> ''wrong'' \<notin> set (unlockParts core_two_parts)
   \<and> fst (Unseal env0 core_two_parts ''wrong'')
       = (False, Some (ErrInvalidKey ''wrong master key''))
   \<and> sealed (fst (snd (Unseal env0 core_two_parts ''wrong'')))
   \<and> unlockParts (fst (snd (Unseal env0 core_two_parts ''wrong''))) = []
   \<and> SecretProgress (fst (snd (Unseal env0 core_two_parts ''wrong''))) = 0
   \<and> fst (Unseal env_combine_fails core_two_parts ''wrong'')
       = (False, Some (Errorf ''failed to compute master key: all parts must be the same length''))
   \<and> unlockParts (fst (snd (Unseal env_combine_fails core_two_parts ''wrong''))) = []
   \<and> fst (Unseal env_1of1 core0 ''nope'')
       = (False, Some (ErrInvalidKey ''wrong master key''))
   \<and> unlockParts (fst (snd (Unseal env_1of1 core0 ''nope''))) = []"
proof -
  have l: "fst (barrier_KeyLength env0) \<le> int (length ''wrong'')"
      "int (length ''wrong'') \<le> snd (barrier_KeyLength env0) + ShareOverhead env0"
    and lc: "fst (barrier_KeyLength env_combine_fails) \<le> int (length ''wrong'')"
      "int (length ''wrong'') \<le> snd (barrier_KeyLength env_combine_fails) + ShareOverhead env_combine_fails"
    and l1: "fst (barrier_KeyLength env_1of1) \<le> int (length ''nope'')"
      "int (length ''nope'') \<le> snd (barrier_KeyLength env_1of1) + ShareOverhead env_1of1"
    by (simp_all add: env0_fields env_1of1_def env_combine_fails_def)
  have i: "fst (Core_SealConfig env0) = Inr (Some \<lparr>SecretShares = 5, SecretThreshold = 3\<rparr>)"
    and ic: "fst (Core_SealConfig env_combine_fails)
               = Inr (Some \<lparr>SecretShares = 5, SecretThreshold = 3\<rparr>)"
    and i1: "fst (Core_SealConfig env_1of1)
               = Inr (Some \<lparr>SecretShares = 1, SecretThreshold = 1\<rparr>)"
    by (simp_all add: SealConfig_env0 SealConfig_env_1of1 SealConfig_env_combine_fails)
  have s: "sealed core_two_parts" "sealed core0"
    by (simp_all add: core0_def core_two_parts_def)
  have n: "''wrong'' \<notin> set (unlockParts core_two_parts)" "''nope'' \<notin> set (unlockParts core0)"
    by (simp_all add: core0_def core_two_parts_def)
  have t: "SecretThreshold \<lparr>SecretShares = 5, SecretThreshold = 3\<rparr>
             \<le> int (length (unlockParts core_two_parts)) + 1"
    "SecretThreshold \<lparr>SecretShares = 1, SecretThreshold = 1\<rparr>
             \<le> int (length (unlockParts core0)) + 1"
    by (simp_all add: core0_def core_two_parts_def)
  show ?thesis
    using s(1) n(1)
      Unseal_failed_attempt [OF l i s(1) n(1) t(1), where masterKey = "''????''" and e = "ErrInvalidKey ''wrong master key''"]
      Unseal_failed_attempt [OF lc ic s(1) n(1) t(1), where e = "Errorf ''all parts must be the same length''"]
      Unseal_failed_attempt [OF l1 i1 s(2) n(2) t(2), where e = "ErrInvalidKey ''wrong master key''"]
    by (simp add: core0_def core_two_parts_def env0_fields shares0_def env_1of1_def
          env_combine_fails_def)
qed

subsection \<open>C4: preSeal in the standby loop\<close>

text \<open>
  Claim C4 says that each change from active to standby runs \<^verbatim>\<open>preSeal\<close> once. The
  code runs it twice: once under the state lock, and again in the test that follows
  \<^verbatim>\<open>lock.Unlock()\<close>. A script with one such change, by loss of leadership or by the
  stop signal, has two entries into \<^verbatim>\<open>preSeal\<close> in its trace.
\<close>

theorem runStandby_preSeal_twice:
  "transitions (snd (snd (runStandby [round_active LeadershipLost] core_standby))) = 1
   \<and> preSeal_calls (snd (snd (runStandby [round_active LeadershipLost] core_standby))) = 2
   \<and> fst (runStandby [round_active StopSignalled, round_stopped] core_standby)
   \<and> transitions (snd (snd (runStandby [round_active StopSignalled, round_stopped] core_standby))) = 1
   \<and> preSeal_calls (snd (snd (runStandby [round_active StopSignalled, round_stopped] core_standby))) = 2"
  by (simp add: runStandby_def runStandby_turn_def stepDown_def advertiseLeader_def
        clearLeader_def postUnseal_def preSeal_def Let_def round_active_def round_stopped_def
        core_standby_def core_ha_def core0_def env0_fields preSeal_calls_def transitions_def)

subsection \<open>C5: an auth block on the authenticated path\<close>

text \<open>
  Claim C5 says that an auth block returned under \<^verbatim>\<open>auth/token/\<close> is registered with
  the expiration manager only for a holder without the policy \<^verbatim>\<open>root\<close>. On the code
  \<^verbatim>\<open>RegisterAuth\<close> is called for a root holder as well.
\<close>

theorem handleRequest_root_auth_counterexample:
  "strListContains (auth_Policies auth_root) ''root''
   \<and> prefix ''auth/token/'' (req_Path req_create)
   \<and> HandleRequest (env_routing (resp_auth auth_root)) core_active req_create
       = handleRequest (env_routing (resp_auth auth_root)) req_create
   \<and> RegisterAuth ''auth/token/create'' auth_root
       \<in> set (snd (HandleRequest (env_routing (resp_auth auth_root)) core_active req_create))"
proof -
  let ?E = "env_routing (resp_auth auth_root)"
  have aud: "auditBroker_LogRequest ?E (Some auth_of_root)
               (req_create\<lparr>req_DisplayName := auth_DisplayName auth_of_root\<rparr>) = None"
    by (simp add: env_routing_fields)
  have au: "resp_Auth (resp_auth auth_root) = Some auth_root"
    and path: "prefix ''auth/token/''
                 (req_Path (req_create\<lparr>req_DisplayName := auth_DisplayName auth_of_root\<rparr>))"
    by (simp_all add: resp_auth_def req_create_def)
  have gate: "HandleRequest ?E core_active req_create = handleRequest ?E req_create"
    by (simp add: HandleRequest_def core_active_def core0_def env_routing_fields env0_fields
          req_create_def)
  have sec: "resp_Secret (resp_auth auth_root) = None"
    by (simp add: resp_auth_def)
  have eq: "handleRequest ?E req_create
              = handleRequest_auth ?E auth_of_root
                  (req_create\<lparr>req_DisplayName := auth_DisplayName auth_of_root\<rparr>)
                  (Some (resp_auth auth_root)) None
                  ([TokenLookup ''root-token'',
                    TokenUse \<lparr>te_ID = ''root-token'', te_Path = ''auth/token/root'',
                              te_Policies = [''root''], te_Meta = Map.empty,
                              te_DisplayName = ''root''\<rparr>,
                    PolicyACL [''root'']]
                   @ [AuditRequest (Some auth_of_root)
                        (req_create\<lparr>req_DisplayName := auth_DisplayName auth_of_root\<rparr>),
                      Route (req_create\<lparr>req_DisplayName := auth_DisplayName auth_of_root\<rparr>)])"
    by (simp add: handleRequest_routed [OF req_create_token aud] handleRequest_secret_def
          env_routing_fields sec)
  have "RegisterAuth
          (req_Path (req_create\<lparr>req_DisplayName := auth_DisplayName auth_of_root\<rparr>))
          (clampAuth ?E auth_root) \<in> set (snd (handleRequest ?E req_create))"
    unfolding eq by (rule handleRequest_auth_registers [OF au path])
  then have "RegisterAuth ''auth/token/create'' auth_root
               \<in> set (snd (handleRequest ?E req_create))"
    by (simp add: clampAuth_auth_root req_create_def)
  then show ?thesis
    using gate by (simp add: strListContains_def auth_root_def req_create_def)
qed

text \<open>
  Claim C5, amended. On the authenticated path, when the routed response carries an auth
  block, the path is under \<^verbatim>\<open>auth/token/\<close> and the secret of the response, if it has
  one, was registered, the Core calls \<^verbatim>\<open>RegisterAuth\<close> with the auth block, whatever its
  policies. The policy \<^verbatim>\<open>root\<close> exempts the holder from the default lease only: a zero
  lease stays zero for a root holder and becomes the default lease for any other; a lease
  above the maximum is cut to the maximum for both.
\<close>

theorem handleRequest_registers_auth:
  assumes tok: "checkToken E (req_Operation req) (req_Path req) (req_ClientToken req)
                  = (Inr auth, ev0)"
    and aud: "auditBroker_LogRequest E (Some auth) (req\<lparr>req_DisplayName := auth_DisplayName auth\<rparr>)
                = None"
    and route: "fst (router_Route E (req\<lparr>req_DisplayName := auth_DisplayName auth\<rparr>)) = Some r"
    and sec: "resp_Secret r = None
              \<or> (\<exists>s leaseID. resp_Secret r = Some s
                    \<and> expiration_Register E (req\<lparr>req_DisplayName := auth_DisplayName auth\<rparr>)
                          (r\<lparr>resp_Secret := Some (clampSecret E s)\<rparr>) = Inr leaseID)"
    and au: "resp_Auth r = Some a"
    and path: "prefix ''auth/token/'' (req_Path req)"
  shows "RegisterAuth (req_Path req) (clampAuth E a) \<in> set (snd (handleRequest E req))
       \<and> (strListContains (auth_Policies a) ''root'' \<and> auth_Lease a = 0
            \<and> 0 \<le> maxLeaseDuration E \<longrightarrow> auth_Lease (clampAuth E a) = 0)
       \<and> (\<not> strListContains (auth_Policies a) ''root'' \<and> auth_Lease a = 0
            \<and> defaultLeaseDuration E \<le> maxLeaseDuration E \<longrightarrow>
            auth_Lease (clampAuth E a) = defaultLeaseDuration E)
       \<and> (auth_Lease a \<noteq> 0 \<and> maxLeaseDuration E < auth_Lease a \<longrightarrow>
            auth_Lease (clampAuth E a) = maxLeaseDuration E)"
proof -
  let ?req1 = "req\<lparr>req_DisplayName := auth_DisplayName auth\<rparr>"
  have p1: "prefix ''auth/token/'' (req_Path ?req1)" using path by simp
  have reg: "RegisterAuth (req_Path req) (clampAuth E a) \<in> set (snd (handleRequest E req))"
    using sec
  proof
    assume none: "resp_Secret r = None"
    show ?thesis
      using handleRequest_auth_registers [OF au p1, of E auth]
      by (simp add: handleRequest_routed [OF tok aud] route handleRequest_secret_def none)
  next
    assume "\<exists>s leaseID. resp_Secret r = Some s
              \<and> expiration_Register E ?req1 (r\<lparr>resp_Secret := Some (clampSecret E s)\<rparr>)
                    = Inr leaseID"
    then obtain s leaseID where s: "resp_Secret r = Some s"
      and ok: "expiration_Register E ?req1 (r\<lparr>resp_Secret := Some (clampSecret E s)\<rparr>)
                 = Inr leaseID"
      by blast
    let ?r3 = "r\<lparr>resp_Secret := Some ((clampSecret E s)\<lparr>secret_LeaseID := leaseID\<rparr>)\<rparr>"
    have au3: "resp_Auth ?r3 = Some a" using au by simp
    show ?thesis
      using handleRequest_auth_registers [OF au3 p1, of E auth]
      by (simp add: handleRequest_routed [OF tok aud] route handleRequest_secret_def s ok
            Let_def)
  qed
  show ?thesis using reg clampAuth_lease [of a E] by blast
qed

theorem handleRequest_registers_auth_witness:
  "strListContains (auth_Policies auth_root) ''root''
   \<and> RegisterAuth ''auth/token/create'' auth_root
       \<in> set (snd (handleRequest (env_routing (resp_auth auth_root)) req_create))
   \<and> auth_Lease (clampAuth (env_routing (resp_auth auth_root)) auth_root) = 0
   \<and> \<not> strListContains (auth_Policies (auth_root\<lparr>auth_Policies := [''dev'']\<rparr>)) ''root''
   \<and> RegisterAuth ''auth/token/create''
        (auth_root\<lparr>auth_Policies := [''dev''], auth_Lease := 2592000\<rparr>)
       \<in> set (snd (handleRequest
                     (env_routing (resp_auth (auth_root\<lparr>auth_Policies := [''dev'']\<rparr>)))
                     req_create))"
proof -
  let ?a = "auth_root\<lparr>auth_Policies := [''dev'']\<rparr>"
  have aud: "auditBroker_LogRequest (env_routing r) (Some auth_of_root)
               (req_create\<lparr>req_DisplayName := auth_DisplayName auth_of_root\<rparr>) = None" for r
    by (simp add: env_routing_fields)
  have route: "fst (router_Route (env_routing r)
                 (req_create\<lparr>req_DisplayName := auth_DisplayName auth_of_root\<rparr>)) = Some r" for r
    by (simp add: env_routing_fields)
  have sec: "resp_Secret (resp_auth a) = None
              \<or> (\<exists>s leaseID. resp_Secret (resp_auth a) = Some s
                    \<and> expiration_Register (env_routing (resp_auth a))
                          (req_create\<lparr>req_DisplayName := auth_DisplayName auth_of_root\<rparr>)
                          ((resp_auth a)\<lparr>resp_Secret := Some (clampSecret (env_routing (resp_auth a)) s)\<rparr>)
                        = Inr leaseID)" for a
    by (simp add: resp_auth_def)
  have au: "resp_Auth (resp_auth a) = Some a" for a
    by (simp add: resp_auth_def)
  have path: "prefix ''auth/token/'' (req_Path req_create)"
    by (simp add: req_create_def)
  have cl: "clampAuth (env_routing r) ?a = auth_root\<lparr>auth_Policies := [''dev''], auth_Lease := 2592000\<rparr>" for r
    by (simp add: clampAuth_def Let_def strListContains_def auth_root_def env_routing_fields)
  show ?thesis
    using handleRequest_registers_auth [OF req_create_token aud route sec au path, of auth_root]
      handleRequest_registers_auth [OF req_create_token aud route sec au path, of ?a]
    by (simp add: clampAuth_auth_root cl)
       (simp add: strListContains_def auth_root_def req_create_def)
qed

subsection \<open>C6: a secret on the authenticated path\<close>

text \<open>
  Claim C6. On the authenticated path, for a routed response with a secret: the Core
  calls \<^verbatim>\<open>expiration.Register\<close> with the response whose lease is the default lease
  in place of zero and the maximum lease in place of a larger one (the constants are
  declared in another file; the default is taken not to exceed the maximum), and every
  response that \<^verbatim>\<open>handleRequest\<close> returns carries that lease and the lease id that
  \<^verbatim>\<open>Register\<close> answered.
\<close>

theorem handleRequest_registers_secret:
  assumes tok: "checkToken E (req_Operation req) (req_Path req) (req_ClientToken req)
                  = (Inr auth, ev0)"
    and aud: "auditBroker_LogRequest E (Some auth) (req\<lparr>req_DisplayName := auth_DisplayName auth\<rparr>)
                = None"
    and route: "fst (router_Route E (req\<lparr>req_DisplayName := auth_DisplayName auth\<rparr>)) = Some r"
    and sec: "resp_Secret r = Some s"
  shows "Register (req\<lparr>req_DisplayName := auth_DisplayName auth\<rparr>)
           (r\<lparr>resp_Secret := Some (clampSecret E s)\<rparr>) \<in> set (snd (handleRequest E req))
       \<and> (secret_Lease s = 0 \<and> defaultLeaseDuration E \<le> maxLeaseDuration E \<longrightarrow>
            secret_Lease (clampSecret E s) = defaultLeaseDuration E)
       \<and> (secret_Lease s \<noteq> 0 \<and> maxLeaseDuration E < secret_Lease s \<longrightarrow>
            secret_Lease (clampSecret E s) = maxLeaseDuration E)
       \<and> (\<forall>resp'. fst (fst (handleRequest E req)) = Some resp' \<longrightarrow>
            (\<exists>leaseID.
               expiration_Register E (req\<lparr>req_DisplayName := auth_DisplayName auth\<rparr>)
                 (r\<lparr>resp_Secret := Some (clampSecret E s)\<rparr>) = Inr leaseID
               \<and> resp_Secret resp' = Some ((clampSecret E s)\<lparr>secret_LeaseID := leaseID\<rparr>)))"
proof -
  let ?req1 = "req\<lparr>req_DisplayName := auth_DisplayName auth\<rparr>"
  let ?r2 = "r\<lparr>resp_Secret := Some (clampSecret E s)\<rparr>"
  let ?er = "snd (router_Route E ?req1)"
  let ?ev = "ev0 @ [AuditRequest (Some auth) ?req1, Route ?req1]"
  have both: "Register ?req1 ?r2 \<in> set (snd (handleRequest E req))
       \<and> (\<forall>resp'. fst (fst (handleRequest E req)) = Some resp' \<longrightarrow>
            (\<exists>leaseID. expiration_Register E ?req1 ?r2 = Inr leaseID
               \<and> resp_Secret resp' = Some ((clampSecret E s)\<lparr>secret_LeaseID := leaseID\<rparr>)))"
  proof (cases "expiration_Register E ?req1 ?r2")
    case (Inl e)
    then show ?thesis
      by (simp add: handleRequest_routed [OF tok aud] route handleRequest_secret_def sec Let_def)
  next
    case (Inr leaseID)
    let ?r3 = "?r2\<lparr>resp_Secret := Some ((clampSecret E s)\<lparr>secret_LeaseID := leaseID\<rparr>)\<rparr>"
    have eq: "handleRequest E req
                = handleRequest_auth E auth ?req1 (Some ?r3) ?er (?ev @ [Register ?req1 ?r2])"
      using Inr
      by (simp add: handleRequest_routed [OF tok aud] route handleRequest_secret_def sec Let_def)
    have "Register ?req1 ?r2 \<in> set (?ev @ [Register ?req1 ?r2])" by simp
    then have ev: "Register ?req1 ?r2 \<in> set (snd (handleRequest E req))"
      unfolding eq using handleRequest_auth_events by blast
    have res: "resp_Secret resp' = Some ((clampSecret E s)\<lparr>secret_LeaseID := leaseID\<rparr>)"
      if "fst (fst (handleRequest E req)) = Some resp'" for resp'
      using handleRequest_auth_result [OF that [unfolded eq]] by simp
    show ?thesis using ev res Inr by blast
  qed
  show ?thesis using both clampSecret_lease [of s E] by blast
qed

theorem handleRequest_registers_secret_witness:
  "fst (handleRequest (env_routing (resp_secret 0)) req_read)
     = (Some \<lparr>resp_Secret = Some \<lparr>secret_Lease = 2592000, secret_LeaseID = ''lease-1''\<rparr>,
              resp_Auth = None, resp_Data = Map.empty\<rparr>, None)
   \<and> Register (req_read\<lparr>req_DisplayName := ''token''\<rparr>) (resp_secret 2592000)
       \<in> set (snd (handleRequest (env_routing (resp_secret 0)) req_read))
   \<and> fst (handleRequest (env_routing (resp_secret 25920000)) req_read)
     = (Some \<lparr>resp_Secret = Some \<lparr>secret_Lease = 2592000, secret_LeaseID = ''lease-1''\<rparr>,
              resp_Auth = None, resp_Data = Map.empty\<rparr>, None)
   \<and> Register (req_read\<lparr>req_DisplayName := ''token''\<rparr>) (resp_secret 2592000)
       \<in> set (snd (handleRequest (env_routing (resp_secret 25920000)) req_read))"
proof -
  let ?req1 = "req_read\<lparr>req_DisplayName := auth_DisplayName auth_of_dev\<rparr>"
  have aud: "auditBroker_LogRequest (env_routing r) (Some auth_of_dev) ?req1 = None" for r
    by (simp add: env_routing_fields)
  have route: "fst (router_Route (env_routing r) ?req1) = Some r" for r
    by (simp add: env_routing_fields)
  have sec: "resp_Secret (resp_secret l) = Some \<lparr>secret_Lease = l, secret_LeaseID = []\<rparr>" for l
    by (simp add: resp_secret_def)
  have cl: "clampSecret (env_routing r) \<lparr>secret_Lease = 0, secret_LeaseID = []\<rparr>
              = \<lparr>secret_Lease = 2592000, secret_LeaseID = []\<rparr>"
    "clampSecret (env_routing r) \<lparr>secret_Lease = 25920000, secret_LeaseID = []\<rparr>
              = \<lparr>secret_Lease = 2592000, secret_LeaseID = []\<rparr>" for r
    by (simp_all add: clampSecret_def Let_def env_routing_fields)
  have run: "fst (handleRequest (env_routing (resp_secret l)) req_read)
     = (Some \<lparr>resp_Secret = Some ((clampSecret (env_routing (resp_secret l))
                     \<lparr>secret_Lease = l, secret_LeaseID = []\<rparr>)\<lparr>secret_LeaseID := ''lease-1''\<rparr>),
              resp_Auth = None, resp_Data = Map.empty\<rparr>, None)" for l
    by (simp add: handleRequest_routed [OF req_read_token aud] handleRequest_secret_def
          handleRequest_auth_def auditResponse_def env_routing_fields Let_def resp_secret_def)
  show ?thesis
    using handleRequest_registers_secret [OF req_read_token aud route sec, of 0]
      handleRequest_registers_secret [OF req_read_token aud route sec, of 25920000]
    by (simp add: cl run)
       (simp add: resp_secret_def auth_of_dev_def)
qed

subsection \<open>C7: progress of Unseal\<close>

text \<open>
  Claim C7. For a sealed, initialized core and a key of accepted length:
  a key equal to a part already accepted leaves the core (and so the list of accepted
  parts) unchanged and \<^verbatim>\<open>Unseal\<close> returns false without error;
  a new key that leaves the number of parts below the threshold T is appended, and
  \<^verbatim>\<open>Unseal\<close> returns false with the core still sealed;
  a new key that brings the number of parts to T makes \<^verbatim>\<open>Unseal\<close> take the first
  part as master key when T = 1 and otherwise call \<^verbatim>\<open>shamir.Combine\<close> on the parts,
  and \<^verbatim>\<open>barrier.Unseal\<close> is called with the master key so obtained.
\<close>

theorem Unseal_progress:
  assumes len: "fst (barrier_KeyLength E) \<le> int (length key)"
               "int (length key) \<le> snd (barrier_KeyLength E) + ShareOverhead E"
    and init: "fst (Core_SealConfig E) = Inr (Some config)"
    and sealed: "sealed c"
  shows "(key \<in> set (unlockParts c) \<longrightarrow>
            fst (Unseal E c key) = (False, None) \<and> fst (snd (Unseal E c key)) = c)
       \<and> (key \<notin> set (unlockParts c)
            \<and> int (length (unlockParts c)) + 1 < SecretThreshold config \<longrightarrow>
            fst (Unseal E c key) = (False, None)
            \<and> fst (snd (Unseal E c key)) = c\<lparr>unlockParts := unlockParts c @ [key]\<rparr>
            \<and> sealed (fst (snd (Unseal E c key))))
       \<and> (key \<notin> set (unlockParts c)
            \<and> SecretThreshold config \<le> int (length (unlockParts c)) + 1 \<longrightarrow>
            (if SecretThreshold config = 1
             then BarrierUnseal (hd (unlockParts c @ [key])) \<in> set (snd (snd (Unseal E c key)))
             else ShamirCombine (unlockParts c @ [key]) \<in> set (snd (snd (Unseal E c key)))
                  \<and> (\<forall>masterKey. shamir_Combine E (unlockParts c @ [key]) = Inr masterKey \<longrightarrow>
                        BarrierUnseal masterKey \<in> set (snd (snd (Unseal E c key))))))"
proof -
  obtain ev where cfg: "Core_SealConfig E = (Inr (Some config), ev)"
    using init by (cases "Core_SealConfig E") simp
  show ?thesis
    using len sealed
    by (auto simp: Unseal_def cfg Let_def Unseal_recover_def Unseal_attempt_def
             split: option.splits sum.splits prod.splits list.splits)
qed

theorem Unseal_progress_witness:
  "sealed core0
   \<and> fst (Core_SealConfig env0) = Inr (Some \<lparr>SecretShares = 5, SecretThreshold = 3\<rparr>)
   \<and> fst (Unseal env0 core0 ''aaaa1'') = (False, None)
   \<and> fst (snd (Unseal env0 core0 ''aaaa1'')) = core0\<lparr>unlockParts := [''aaaa1'']\<rparr>
   \<and> fst (Unseal env0 (core0\<lparr>unlockParts := [''aaaa1'']\<rparr>) ''aaaa1'') = (False, None)
   \<and> fst (snd (Unseal env0 (core0\<lparr>unlockParts := [''aaaa1'']\<rparr>) ''aaaa1''))
       = core0\<lparr>unlockParts := [''aaaa1'']\<rparr>
   \<and> ShamirCombine [''aaaa1'', ''bbbb2'', ''dddd4'']
       \<in> set (snd (snd (Unseal env0 (core0\<lparr>unlockParts := [''aaaa1'', ''bbbb2'']\<rparr>) ''dddd4'')))
   \<and> BarrierUnseal ''mkey''
       \<in> set (snd (snd (Unseal env0 (core0\<lparr>unlockParts := [''aaaa1'', ''bbbb2'']\<rparr>) ''dddd4'')))
   \<and> BarrierUnseal ''mkey'' \<in> set (snd (snd (Unseal env_1of1 core0 ''mkey'')))"
proof -
  have l1: "fst (barrier_KeyLength env0) \<le> int (length ''aaaa1'')"
    and l2: "int (length ''aaaa1'') \<le> snd (barrier_KeyLength env0) + ShareOverhead env0"
    and l3: "fst (barrier_KeyLength env0) \<le> int (length ''dddd4'')"
    and l4: "int (length ''dddd4'') \<le> snd (barrier_KeyLength env0) + ShareOverhead env0"
    and l5: "fst (barrier_KeyLength env_1of1) \<le> int (length ''mkey'')"
    and l6: "int (length ''mkey'') \<le> snd (barrier_KeyLength env_1of1) + ShareOverhead env_1of1"
    by (simp_all add: env0_fields env_1of1_def)
  have i: "fst (Core_SealConfig env0) = Inr (Some \<lparr>SecretShares = 5, SecretThreshold = 3\<rparr>)"
    and i1: "fst (Core_SealConfig env_1of1)
               = Inr (Some \<lparr>SecretShares = 1, SecretThreshold = 1\<rparr>)"
    by (simp_all add: SealConfig_env0 SealConfig_env_1of1)
  have s: "sealed core0" "sealed (core0\<lparr>unlockParts := [''aaaa1'']\<rparr>)"
    "sealed (core0\<lparr>unlockParts := [''aaaa1'', ''bbbb2'']\<rparr>)"
    by (simp_all add: core0_def)
  show ?thesis
    using i s(1) Unseal_progress [OF l1 l2 i s(1)] Unseal_progress [OF l1 l2 i s(2)]
      Unseal_progress [OF l3 l4 i s(3)] Unseal_progress [OF l5 l6 i1 s(1)]
    by (simp add: core0_def env0_fields shares0_def env_1of1_def)
qed

subsection \<open>C8: the gate of HandleRequest\<close>

text \<open>
  Claim C8. \<^verbatim>\<open>HandleRequest\<close> fails with \<open>ErrSealed\<close> on a sealed core and with
  \<open>ErrStandby\<close> on an unsealed core in standby mode, in both cases without any call to
  a collaborator (so without routing the request); on an unsealed active core it is
  \<^verbatim>\<open>handleLoginRequest\<close> if \<^verbatim>\<open>router.LoginPath(req.Path)\<close> holds and
  \<^verbatim>\<open>handleRequest\<close> if it does not.
\<close>

theorem HandleRequest_gate:
  "(sealed c \<longrightarrow> HandleRequest E c req = ((None, Some ErrSealed), []))
   \<and> (\<not> sealed c \<and> standby c \<longrightarrow> HandleRequest E c req = ((None, Some ErrStandby), []))
   \<and> (\<not> sealed c \<and> \<not> standby c \<longrightarrow>
        HandleRequest E c req =
          (if router_LoginPath E (req_Path req) then handleLoginRequest E req
           else handleRequest E req))"
  by (simp add: HandleRequest_def)

theorem HandleRequest_gate_witness:
  "sealed core0 \<and> HandleRequest env0 core0 req_read = ((None, Some ErrSealed), [])
   \<and> \<not> sealed (core_ha\<lparr>sealed := False\<rparr>) \<and> standby (core_ha\<lparr>sealed := False\<rparr>)
   \<and> HandleRequest env0 (core_ha\<lparr>sealed := False\<rparr>) req_read = ((None, Some ErrStandby), [])
   \<and> \<not> sealed core_active \<and> \<not> standby core_active
   \<and> \<not> router_LoginPath env0 (req_Path req_read)
   \<and> HandleRequest env0 core_active req_read = handleRequest env0 req_read
   \<and> router_LoginPath env0 (req_Path req_login)
   \<and> HandleRequest env0 core_active req_login = handleLoginRequest env0 req_login"
  using HandleRequest_gate [of core0 env0 req_read]
    HandleRequest_gate [of "core_ha\<lparr>sealed := False\<rparr>" env0 req_read]
    HandleRequest_gate [of core_active env0 req_read]
    HandleRequest_gate [of core_active env0 req_login]
  by (simp add: core0_def core_ha_def core_active_def env0_fields req_read_def req_login_def)

subsection \<open>C9: Leader\<close>

text \<open>
  Claim C9. Without an HA backend \<^verbatim>\<open>Leader\<close> fails with \<open>ErrHANotEnabled\<close>. With
  one, on an unsealed active node it returns true and the node's own advertised
  address; on an unsealed standby node, when the lock made by
  \<^verbatim>\<open>LockWith(coreLockPath, "read")\<close> is held with the value \<open>uuid\<close> and the barrier has an
  entry under \<open>coreLeaderPrefix @ uuid\<close>, it returns false and the value of that entry,
  after exactly these three calls.
\<close>

theorem Leader_answers:
  "(\<not> ha c \<longrightarrow> Leader E c = ((False, [], Some ErrHANotEnabled), []))
   \<and> (ha c \<and> \<not> sealed c \<and> \<not> standby c \<longrightarrow> Leader E c = ((True, advertiseAddr c, None), []))
   \<and> (ha c \<and> \<not> sealed c \<and> standby c
        \<and> ha_LockWith E coreLockPath ''read'' = Inr lock
        \<and> lock_Value lock = Inr (True, uuid)
        \<and> barrier_Get E (coreLeaderPrefix @ uuid) = Inr (Some entry) \<longrightarrow>
        Leader E c =
          ((False, Value entry, None),
           [HALockWith coreLockPath ''read'', LockValue, BarrierGet (coreLeaderPrefix @ uuid)]))"
  by (simp add: Leader_def)

theorem Leader_answers_witness:
  "\<not> ha core_active \<and> Leader env0 core_active = ((False, [], Some ErrHANotEnabled), [])
   \<and> Leader env0 (core_ha\<lparr>sealed := False, standby := False\<rparr>)
       = ((True, ''https://b:8200'', None), [])
   \<and> Leader env0 (core_ha\<lparr>sealed := False\<rparr>)
       = ((False, ''https://a:8200'', None),
          [HALockWith ''core/lock'' ''read'', LockValue, BarrierGet ''core/leader/uuid-A''])"
  using Leader_answers [of core_active env0]
    Leader_answers [of "core_ha\<lparr>sealed := False, standby := False\<rparr>" env0]
    Leader_answers [of "core_ha\<lparr>sealed := False\<rparr>" env0 "\<lparr>lock_Value = Inr (True, ''uuid-A'')\<rparr>"
      "''uuid-A''" "\<lparr>Key = ''core/leader/uuid-A'', Value = ''https://a:8200''\<rparr>"]
  by (simp add: core0_def core_ha_def core_active_def env0_fields coreLockPath_def
        coreLeaderPrefix_def)

subsection \<open>C10: Seal on a sealed core\<close>

text \<open>
  Claim C10. On a sealed core \<^verbatim>\<open>Seal\<close> returns \<^verbatim>\<open>nil\<close> for every token, leaves the core
  as it is and calls no collaborator: neither the token check nor any tear-down step runs.
\<close>

theorem Seal_when_sealed:
  "sealed c \<Longrightarrow> Seal E c token = (Inr None, c, [])"
  by (simp add: Seal_def)

theorem Seal_when_sealed_witness:
  "sealed core0 \<and> Seal env0 core0 [] = (Inr None, core0, [])
   \<and> Seal env0 core0 ''no-such-token'' = (Inr None, core0, [])"
proof -
  have s: "sealed core0" by (simp add: core0_def)
  show ?thesis
    using s Seal_when_sealed [OF s, of env0 "[]"]
      Seal_when_sealed [OF s, of env0 "''no-such-token''"]
    by simp
qed

end
